theory Spec2Isabelle
  imports Complex_Main "HOL-Library.Sublist"
begin

section \<open>Audit task store (components/audit\_tasks.py)\<close>

text \<open>
  The write operations of \<^verbatim>\<open>audit_tasks.py\<close> send one Cypher statement each to the
  graph store. The part of the graph they touch is modelled as lists of nodes and of
  relationships; a node is identified by its position in its list. A property that may be
  \<^verbatim>\<open>null\<close> is an \<open>option\<close>. \<^verbatim>\<open>datetime()\<close>, \<^verbatim>\<open>randomUUID()\<close> and
  \<^verbatim>\<open>datetime.now().strftime(...)\<close> read the outside world; they are taken from an explicit
  environment.
\<close>

record audit_task =
  TaskID :: string
  TaskName :: string
  Description :: string
  Status :: string
  Priority :: string
  AssignedDate :: nat
  DueDate :: int
  CompletedDate :: "nat option"
  ExposureAmount :: int
  ProgressPercent :: int
  Notes :: "string option"
  CreatedDate :: nat
  LastUpdated :: "nat option"

record assigned_to =
  rel_auditor :: nat
  rel_task :: nat
  rel_AssignedDate :: nat
  rel_AssignedBy :: "string option"
  rel_ReassignedFrom :: "string option"
  rel_Reason :: "string option"
  rel_ReassignedBy :: "string option"

record task_graph =
  Taxpayer_TIN :: "string list"
  Auditor_ID :: "string list"
  RiskFlag_ID :: "string list"
  AuditTask :: "audit_task list"
  ASSIGNED_TO :: "assigned_to list"
  TARGETS :: "(nat \<times> nat \<times> nat) list"
  LINKED_TO :: "(nat \<times> nat \<times> nat) list"
  run_raises :: bool
  optional_keeps_binding :: bool

text \<open>
  \<open>run_raises\<close>: \<^verbatim>\<open>graph.run\<close> raises (the store is unreachable); every operation
  catches that, logs it and returns \<^verbatim>\<open>False\<close>.
  \<open>optional_keeps_binding\<close>: what the engine does in \<^verbatim>\<open>update_task_status\<close> at
  \<^verbatim>\<open>OPTIONAL MATCH (task) WHERE task.Status = 'Completed'\<close> when the status is another
  one: keep the row with \<^verbatim>\<open>task\<close> still bound (so that the following \<^verbatim>\<open>SET\<close> stamps
  the date at every status change), or not. No result below depends on it.
\<close>

record call_env =
  datetime_now :: nat
  strftime_now :: string
  randomUUID :: "nat \<Rightarrow> string"

text \<open>The \<^verbatim>\<open>task_data\<close> dictionary of \<^verbatim>\<open>create_audit_task\<close>: \<open>None\<close> is a missing key.\<close>

record task_data =
  taxpayer_tin :: "string option"
  auditor_id :: "string option"
  task_name :: "string option"
  due_date :: "int option"
  description :: "string option"
  priority :: "string option"
  exposure :: "int option"
  notes_text :: "string option"
  assigned_by :: "string option"
  risk_ids :: "string list option"

definition dict_get :: "'a option \<Rightarrow> 'a \<Rightarrow> 'a" where
  "dict_get v d = (case v of None \<Rightarrow> d | Some x \<Rightarrow> x)"

definition nodes_where :: "('a \<Rightarrow> bool) \<Rightarrow> 'a list \<Rightarrow> nat list" where
  "nodes_where P xs = [i \<leftarrow> [0..<length xs]. P (xs ! i)]"

definition new_task :: "call_env \<Rightarrow> string \<Rightarrow> int \<Rightarrow> task_data \<Rightarrow> nat \<Rightarrow> audit_task" where
  "new_task e nm due td k =
     \<lparr>TaskID = randomUUID e k,
      TaskName = nm,
      Description = dict_get (description td) '''',
      Status = ''Assigned'',
      Priority = dict_get (priority td) ''Medium'',
      AssignedDate = datetime_now e,
      DueDate = due,
      CompletedDate = None,
      ExposureAmount = dict_get (exposure td) 0,
      ProgressPercent = 0,
      Notes = Some (dict_get (notes_text td) ''''),
      CreatedDate = datetime_now e,
      LastUpdated = None\<rparr>"

text \<open>
  \<^verbatim>\<open>create_audit_task\<close>: one task is created per matching (taxpayer, auditor) pair, with
  its two relationships; then one \<^verbatim>\<open>LINKED_TO\<close> per (new task, listed risk flag). The
  rows returned are these last pairs, so the function answers \<^verbatim>\<open>False\<close> when no listed
  risk flag exists, although the task has been created. A missing required key raises
  \<^verbatim>\<open>KeyError\<close> before the statement is sent.
\<close>

definition create_audit_task :: "call_env \<Rightarrow> task_graph \<Rightarrow> task_data \<Rightarrow> task_graph \<times> bool" where
  "create_audit_task e g td =
     (case (taxpayer_tin td, auditor_id td, task_name td, due_date td) of
        (Some tin, Some aid, Some nm, Some due) \<Rightarrow>
          if run_raises g then (g, False)
          else
            let pairs = [(t, a). t \<leftarrow> nodes_where (\<lambda>x. x = tin) (Taxpayer_TIN g),
                                 a \<leftarrow> nodes_where (\<lambda>x. x = aid) (Auditor_ID g)];
                n0 = length (AuditTask g);
                ks = [0..<length pairs];
                rfs = nodes_where (\<lambda>x. x \<in> set (dict_get (risk_ids td) [])) (RiskFlag_ID g);
                rows = [(n0 + k, r, datetime_now e). k \<leftarrow> ks, r \<leftarrow> rfs]
            in (g\<lparr>AuditTask := AuditTask g @ map (new_task e nm due td) ks,
                   ASSIGNED_TO := ASSIGNED_TO g @
                     map (\<lambda>k. \<lparr>rel_auditor = snd (pairs ! k), rel_task = n0 + k,
                                rel_AssignedDate = datetime_now e,
                                rel_AssignedBy = Some (dict_get (assigned_by td) ''System''),
                                rel_ReassignedFrom = None, rel_Reason = None,
                                rel_ReassignedBy = None\<rparr>) ks,
                   TARGETS := TARGETS g @ map (\<lambda>k. (n0 + k, fst (pairs ! k), datetime_now e)) ks,
                   LINKED_TO := LINKED_TO g @ rows\<rparr>,
                rows \<noteq> [])
      | _ \<Rightarrow> (g, False))"

definition on_task :: "string \<Rightarrow> (audit_task \<Rightarrow> audit_task) \<Rightarrow> task_graph \<Rightarrow> task_graph" where
  "on_task task_id f g =
     g\<lparr>AuditTask := map (\<lambda>t. if TaskID t = task_id then f t else t) (AuditTask g)\<rparr>"

definition task_matches :: "string \<Rightarrow> task_graph \<Rightarrow> nat list" where
  "task_matches task_id g = nodes_where (\<lambda>t. TaskID t = task_id) (AuditTask g)"

definition append_note :: "string \<Rightarrow> audit_task \<Rightarrow> audit_task" where
  "append_note note t =
     t\<lparr>Notes := (case Notes t of None \<Rightarrow> Some note
                  | Some old \<Rightarrow> Some (old @ [CHR 0x0A] @ note))\<rparr>"

definition add_task_note :: "call_env \<Rightarrow> task_graph \<Rightarrow> string \<Rightarrow> string \<Rightarrow> task_graph \<times> bool" where
  "add_task_note e g task_id note =
     (if run_raises g then (g, False)
      else (on_task task_id
              (\<lambda>t. (append_note (''['' @ strftime_now e @ ''] '' @ note) t)
                       \<lparr>LastUpdated := Some (datetime_now e)\<rparr>) g,
            task_matches task_id g \<noteq> []))"

definition update_task_status ::
    "call_env \<Rightarrow> task_graph \<Rightarrow> string \<Rightarrow> string \<Rightarrow> string \<Rightarrow> task_graph \<times> bool" where
  "update_task_status e g task_id new_status notes' =
     (if run_raises g then (g, False)
      else
        let g1 = on_task task_id
                   (\<lambda>t. t\<lparr>Status := new_status,
                           LastUpdated := Some (datetime_now e),
                           CompletedDate :=
                             (if new_status = ''Completed'' \<or> optional_keeps_binding g
                              then Some (datetime_now e) else CompletedDate t)\<rparr>) g;
            g2 = (if notes' \<noteq> ''''
                  then fst (add_task_note e g1 task_id
                              (''Status: '' @ new_status @ '' - '' @ notes'))
                  else g1)
        in (g2, task_matches task_id g \<noteq> []))"

definition update_task_progress ::
    "call_env \<Rightarrow> task_graph \<Rightarrow> string \<Rightarrow> int \<Rightarrow> task_graph \<times> bool" where
  "update_task_progress e g task_id progress_percent =
     (if run_raises g then (g, False)
      else (on_task task_id
              (\<lambda>t. t\<lparr>ProgressPercent := max 0 (min 100 progress_percent),
                      LastUpdated := Some (datetime_now e)\<rparr>) g,
            task_matches task_id g \<noteq> []))"

text \<open>
  \<^verbatim>\<open>reassign_task\<close>: one row per (task, assignment of that task, new auditor); each row
  deletes the old relationship and creates a new one.
\<close>

definition reassign_task ::
    "call_env \<Rightarrow> task_graph \<Rightarrow> string \<Rightarrow> string \<Rightarrow> string \<Rightarrow> task_graph \<times> bool" where
  "reassign_task e g task_id new_auditor_id reason =
     (if run_raises g then (g, False)
      else
        let ts = task_matches task_id g;
            olds = [r \<leftarrow> ASSIGNED_TO g. rel_task r \<in> set ts];
            news = nodes_where (\<lambda>x. x = new_auditor_id) (Auditor_ID g);
            rows = [(r, a). r \<leftarrow> olds, a \<leftarrow> news]
        in if rows = [] then (g, False)
           else ((on_task task_id (\<lambda>t. t\<lparr>LastUpdated := Some (datetime_now e)\<rparr>) g)
                   \<lparr>ASSIGNED_TO := [r \<leftarrow> ASSIGNED_TO g. rel_task r \<notin> set ts] @
                      map (\<lambda>(r, a). \<lparr>rel_auditor = a, rel_task = rel_task r,
                                       rel_AssignedDate = datetime_now e,
                                       rel_AssignedBy = None,
                                       rel_ReassignedFrom =
                                         (if rel_auditor r < length (Auditor_ID g)
                                          then Some (Auditor_ID g ! rel_auditor r) else None),
                                       rel_Reason = Some reason,
                                       rel_ReassignedBy = Some ''System''\<rparr>) rows\<rparr>,
                 True))"

definition link_risk_to_task ::
    "call_env \<Rightarrow> task_graph \<Rightarrow> string \<Rightarrow> string \<Rightarrow> task_graph \<times> bool" where
  "link_risk_to_task e g task_id risk_id =
     (if run_raises g then (g, False)
      else
        let rows = [(t, r, datetime_now e). t \<leftarrow> task_matches task_id g,
                                           r \<leftarrow> nodes_where (\<lambda>x. x = risk_id) (RiskFlag_ID g)]
        in if rows = [] then (g, False)
           else ((on_task task_id (\<lambda>t. t\<lparr>LastUpdated := Some (datetime_now e)\<rparr>) g)
                   \<lparr>LINKED_TO := LINKED_TO g @ rows\<rparr>,
                 True))"

definition complete_task ::
    "call_env \<Rightarrow> task_graph \<Rightarrow> string \<Rightarrow> string \<Rightarrow> task_graph \<times> bool" where
  "complete_task e g task_id completion_notes =
     (if run_raises g then (g, False)
      else (on_task task_id
              (\<lambda>t. (append_note (''[COMPLETED '' @ strftime_now e @ ''] '' @ completion_notes)
                       (t\<lparr>Status := ''Completed'',
                          CompletedDate := Some (datetime_now e),
                          ProgressPercent := 100\<rparr>))
                    \<lparr>LastUpdated := Some (datetime_now e)\<rparr>) g,
            task_matches task_id g \<noteq> []))"

text \<open>Every write operation of the module, as one step on the store.\<close>

datatype task_op =
    Create task_data
  | UpdateStatus string string string
  | UpdateProgress string int
  | Reassign string string string
  | AddNote string string
  | LinkRisk string string
  | Complete string string

fun apply_task_op :: "call_env \<Rightarrow> task_graph \<Rightarrow> task_op \<Rightarrow> task_graph \<times> bool" where
  "apply_task_op e g (Create td) = create_audit_task e g td"
| "apply_task_op e g (UpdateStatus i s n) = update_task_status e g i s n"
| "apply_task_op e g (UpdateProgress i p) = update_task_progress e g i p"
| "apply_task_op e g (Reassign i a r) = reassign_task e g i a r"
| "apply_task_op e g (AddNote i n) = add_task_note e g i n"
| "apply_task_op e g (LinkRisk i r) = link_risk_to_task e g i r"
| "apply_task_op e g (Complete i n) = complete_task e g i n"

definition progress_in_range :: "task_graph \<Rightarrow> bool" where
  "progress_in_range g = list_all (\<lambda>t. 0 \<le> ProgressPercent t \<and> ProgressPercent t \<le> 100) (AuditTask g)"

section \<open>Intent classifier (components/tatis360.py)\<close>

text \<open>
  Text is a \<open>string\<close> whose characters are code points below 256, and the character
  classes are those of Python on these code points. \<^verbatim>\<open>str.lower\<close> lowers the letters
  \<open>A\<close> to \<open>Z\<close> and the capital letters 192 to 222 (but the sign 215). \<^verbatim>\<open>str.strip\<close>
  removes the characters for which \<^verbatim>\<open>str.isspace\<close> holds: 9 to 13, 28 to 32, 133 and 160.
  \<^verbatim>\<open>\w\<close> in a \<^verbatim>\<open>str\<close> pattern is the underscore and every character that is
  alphanumeric: the ASCII letters and digits, the letters 170, 181, 186, 192 to 255 but
  the signs 215 and 247, the superscript digits 178, 179, 185 and the fractions 188 to 190.
\<close>

definition is_space :: "char \<Rightarrow> bool" where
  "is_space c =
     (let n = (of_char c :: nat)
      in (9 \<le> n \<and> n \<le> 13) \<or> (28 \<le> n \<and> n \<le> 32) \<or> n = 133 \<or> n = 160)"

definition lower_char :: "char \<Rightarrow> char" where
  "lower_char c =
     (let n = (of_char c :: nat)
      in if (65 \<le> n \<and> n \<le> 90) \<or> (192 \<le> n \<and> n \<le> 222 \<and> n \<noteq> 215)
         then char_of (n + 32) else c)"

definition is_word_char :: "char \<Rightarrow> bool" where
  "is_word_char c =
     (let n = (of_char c :: nat)
      in (97 \<le> n \<and> n \<le> 122) \<or> (65 \<le> n \<and> n \<le> 90) \<or> (48 \<le> n \<and> n \<le> 57) \<or> n = 95 \<or>
         n = 170 \<or> n = 178 \<or> n = 179 \<or> n = 181 \<or> n = 185 \<or> n = 186 \<or>
         (188 \<le> n \<and> n \<le> 190) \<or> (192 \<le> n \<and> n \<noteq> 215 \<and> n \<noteq> 247))"

definition py_lower :: "string \<Rightarrow> string" where
  "py_lower s = map lower_char s"

definition py_strip :: "string \<Rightarrow> string" where
  "py_strip s = rev (dropWhile is_space (rev (dropWhile is_space s)))"

text \<open>\<^verbatim>\<open>keyword in user_input\<close>: the keyword occurs as a contiguous part of the text.\<close>

fun py_in :: "string \<Rightarrow> string \<Rightarrow> bool" where
  "py_in k [] = (k = [])"
| "py_in k (x # xs) = (prefix k (x # xs) \<or> py_in k xs)"

subsection \<open>The regular expressions of the patterns\<close>

text \<open>
  The patterns use literal characters, \<^verbatim>\<open>.\<close> (any character but a newline), \<^verbatim>\<open>\w\<close>, the
  greedy \<^verbatim>\<open>*\<close> and \<^verbatim>\<open>+\<close> on one character class, sequencing, alternation and at most
  one capturing group. \<open>rmatch r (s, g)\<close> lists every way \<open>r\<close> can match at the start of
  \<open>s\<close>, as the text left and the group captured, in the order in which Python's
  backtracking matcher tries them (a greedy repetition tries its longest run first);
  \<^verbatim>\<open>re.search\<close> takes the first of them at the leftmost position that has one.
\<close>

datatype cclass = Is char | Dot | WordChar

fun in_class :: "cclass \<Rightarrow> char \<Rightarrow> bool" where
  "in_class (Is a) c = (c = a)"
| "in_class Dot c = (c \<noteq> CHR 0x0A)"
| "in_class WordChar c = is_word_char c"

datatype regex =
    Eps
  | Chr cclass
  | Star cclass
  | Plus cclass
  | Cat regex regex
  | Alt regex regex
  | Group regex

definition greedy :: "cclass \<Rightarrow> nat \<Rightarrow> string \<Rightarrow> string list" where
  "greedy c lo s = map (\<lambda>k. drop k s) (rev [lo..<Suc (length (takeWhile (in_class c) s))])"

fun rmatch :: "regex \<Rightarrow> string \<times> string option \<Rightarrow> (string \<times> string option) list" where
  "rmatch Eps st = [st]"
| "rmatch (Chr c) (s, g) =
     (case s of [] \<Rightarrow> [] | x # xs \<Rightarrow> if in_class c x then [(xs, g)] else [])"
| "rmatch (Star c) (s, g) = map (\<lambda>r. (r, g)) (greedy c 0 s)"
| "rmatch (Plus c) (s, g) = map (\<lambda>r. (r, g)) (greedy c 1 s)"
| "rmatch (Cat a b) st = concat (map (rmatch b) (rmatch a st))"
| "rmatch (Alt a b) st = rmatch a st @ rmatch b st"
| "rmatch (Group a) (s, g) =
     map (\<lambda>m. (fst m, Some (take (length s - length (fst m)) s))) (rmatch a (s, g))"

text \<open>
  \<^verbatim>\<open>re.search(pattern, text)\<close>: \<open>None\<close> when nothing matches, otherwise \<open>Some\<close> of
  \<^verbatim>\<open>match.group(1) if match.groups() else None\<close>.
\<close>

fun has_group :: "regex \<Rightarrow> bool" where
  "has_group (Group a) = True"
| "has_group (Cat a b) = (has_group a \<or> has_group b)"
| "has_group (Alt a b) = (has_group a \<or> has_group b)"
| "has_group r = False"

definition group1 :: "regex \<Rightarrow> (string \<times> string option) list \<Rightarrow> string option option" where
  "group1 r ms = (case ms of [] \<Rightarrow> None | m # ms' \<Rightarrow> Some (if has_group r then snd m else None))"

fun re_search :: "regex \<Rightarrow> string \<Rightarrow> string option option" where
  "re_search r [] = group1 r (rmatch r ([], None))"
| "re_search r (x # xs) =
     (case group1 r (rmatch r (x # xs, None)) of
        Some v \<Rightarrow> Some v
      | None \<Rightarrow> re_search r xs)"

definition lit :: "string \<Rightarrow> regex" where
  "lit s = foldr (\<lambda>c r. Cat (Chr (Is c)) r) s Eps"

definition seq :: "regex list \<Rightarrow> regex" where
  "seq rs = foldr Cat rs Eps"

definition word_group :: regex where
  "word_group = Group (Plus WordChar)"

subsection \<open>\<^verbatim>\<open>detect_intent\<close>\<close>

text \<open>
  The \<^verbatim>\<open>intents\<close> dictionary in its insertion order, which is the order of the loop:
  name, patterns, keywords. The result's second component is the \<^verbatim>\<open>params\<close>
  dictionary, as an association list.
\<close>

type_synonym params = "(string \<times> string option) list"

type_synonym intent_config = "string \<times> regex list \<times> string list"

definition intents :: "intent_config list" where
  "intents =
    [(''search_tin'',
        [seq [lit ''search '', word_group], seq [lit ''find '', word_group],
         seq [lit ''tin '', word_group], seq [lit ''taxpayer '', word_group]],
        [''tin'', ''search'', ''find'', ''taxpayer'']),
     (''search_name'',
        [seq [lit ''search '', Star Dot, lit '' '', Alt (lit ''taxpayer'') (lit ''company''),
              lit '' '', Group (Plus Dot)],
         seq [lit ''find '', Star Dot, lit '' '', Group (Plus Dot)]],
        [''name'', ''company'', ''business'']),
     (''risk_analysis'',
        [seq [lit ''risk'', Star Dot, word_group], lit ''analyze risk''],
        [''risk'', ''flagged'', ''exposure'', ''profile'']),
     (''related'',
        [seq [lit ''similar'', Star Dot, word_group], seq [lit ''related'', Star Dot, word_group],
         seq [lit ''network'', Star Dot, word_group]],
        [''similar'', ''related'', ''network'', ''connected'']),
     (''pathway'',
        [seq [lit ''evidence'', Star Dot, word_group], seq [lit ''pathway'', Star Dot, word_group]],
        [''evidence'', ''pathway'', ''details'']),
     (''sector_analysis'',
        [seq [lit ''sector '', word_group], seq [lit ''industry '', word_group]],
        [''sector'', ''industry'', ''agriculture'', ''manufacturing'', ''services'']),
     (''high_impact'',
        [seq [lit ''high'', Star Dot, lit ''impact''], seq [lit ''top'', Star Dot, lit ''cases''],
         lit ''priority''],
        [''high'', ''impact'', ''priority'', ''urgent''])]"

text \<open>The inner loop: the first pattern of one configuration that matches.\<close>

fun match_patterns :: "regex list \<Rightarrow> string \<Rightarrow> string option option" where
  "match_patterns [] s = None"
| "match_patterns (p # ps) s =
     (case re_search p s of Some v \<Rightarrow> Some v | None \<Rightarrow> match_patterns ps s)"

text \<open>
  The outer loop. The keyword test of a configuration stands inside the loop body, after
  the patterns of that configuration and before the next configuration is looked at.
\<close>

fun detect_loop :: "intent_config list \<Rightarrow> string \<Rightarrow> string \<times> params" where
  "detect_loop [] s = (''help'', [])"
| "detect_loop ((intent, patterns, keywords) # rest) s =
     (case match_patterns patterns s of
        Some v \<Rightarrow> (intent, [(''extracted_value'', v)])
      | None \<Rightarrow>
          if list_ex (\<lambda>keyword. py_in keyword s) keywords then (intent, [])
          else detect_loop rest s)"

definition detect_intent :: "string \<Rightarrow> string \<times> params" where
  "detect_intent user_input = detect_loop intents (py_strip (py_lower user_input))"

text \<open>The tags \<^verbatim>\<open>detect_intent\<close> can return: the keys of \<^verbatim>\<open>intents\<close> and the default.\<close>

definition supported_intents :: "string list" where
  "supported_intents =
     [''search_tin'', ''search_name'', ''risk_analysis'', ''related'', ''pathway'',
      ''sector_analysis'', ''high_impact'', ''help'']"

definition pattern_hit :: "string \<Rightarrow> intent_config \<Rightarrow> bool" where
  "pattern_hit s cfg = (match_patterns (fst (snd cfg)) s \<noteq> None)"

definition keyword_hit :: "string \<Rightarrow> intent_config \<Rightarrow> bool" where
  "keyword_hit s cfg = list_ex (\<lambda>keyword. py_in keyword s) (snd (snd cfg))"

text \<open>A result of the pattern stage carries the key \<^verbatim>\<open>extracted_value\<close>; one of the
  keyword stage, and the default, carry the empty dictionary.\<close>

definition pattern_stage_result :: "string \<times> params \<Rightarrow> bool" where
  "pattern_stage_result r = (map fst (snd r) = [''extracted_value''])"

text \<open>
  The word that follows a key: the longest run of word characters after the leftmost
  place where the key, one space and a word character stand in the text.
\<close>

fun word_after :: "string \<Rightarrow> string \<Rightarrow> string option" where
  "word_after key [] = None"
| "word_after key (x # xs) =
     (if prefix (key @ '' '') (x # xs) \<and>
         takeWhile is_word_char (drop (length key + 1) (x # xs)) \<noteq> []
      then Some (takeWhile is_word_char (drop (length key + 1) (x # xs)))
      else word_after key xs)"

section \<open>Graph queries of the chatbot (components/tatis360.py)\<close>

text \<open>
  The data functions send one Cypher statement each and return what
  \<^verbatim>\<open>graph.run(...).data()\<close> gives, or \<^verbatim>\<open>None\<close> / \<^verbatim>\<open>[]\<close> after catching and logging
  any exception. The statements of \<^verbatim>\<open>search_taxpayer_by_tin\<close>,
  \<^verbatim>\<open>search_taxpayer_by_name\<close>, \<^verbatim>\<open>find_related_taxpayers\<close> and
  \<^verbatim>\<open>find_high_impact_cases\<close> are evaluated here over the nodes and relationships of the
  store, clause by clause. For the statements of \<^verbatim>\<open>get_risk_pathway\<close> and
  \<^verbatim>\<open>get_sector_risk_profile\<close> the store holds the rows it answers with. Amounts are
  integers (currency units), a \<^verbatim>\<open>null\<close> property is \<open>None\<close>, and a statement listed in
  \<open>failing\<close> makes \<^verbatim>\<open>graph.run\<close> raise. Where \<^verbatim>\<open>ORDER BY\<close> leaves the order of equal keys
  open, the model keeps the order of first appearance.
\<close>

record taxpayer_node =
  TIN :: "string option"
  TaxpayerName :: "string option"
  Region :: "string option"
  Sector :: "string option"
  ComplianceStatus :: "string option"
  TaxpayerCreatedDate :: "string option"

record risk_flag_node =
  RiskID :: "string option"
  RiskName :: "string option"
  Severity :: "string option"

record flagged_by =
  fb_taxpayer :: nat
  fb_risk :: nat
  fb_ExposureAmount :: "int option"
  fb_DetectedDate :: "string option"

datatype statement = SearchTin | SearchName | FindRelated | RiskPathway | HighImpact | SectorProfile

text \<open>The maps that the statements return, key by key.\<close>

record taxpayer_info =
  ti_tin :: "string option"
  ti_name :: "string option"
  ti_region :: "string option"
  ti_sector :: "string option"
  ti_status :: "string option"
  ti_createdDate :: "string option"

record risk_entry =
  re_riskId :: "string option"
  re_riskName :: "string option"
  re_severity :: "string option"
  re_exposureAmount :: "int option"
  re_detectedDate :: "string option"

type_synonym filing = "string option \<times> string option \<times> string option \<times> int option"

record tin_result =
  tr_taxpayer :: taxpayer_info
  tr_risks :: "risk_entry list"
  tr_itReturns :: "filing list"
  tr_efrisReturns :: "filing list"

record name_row =
  nr_tin :: "string option"
  nr_name :: "string option"
  nr_region :: "string option"
  nr_sector :: "string option"
  nr_status :: "string option"
  nr_riskCount :: nat
  nr_totalExposure :: int

record related_row =
  rr_tin :: "string option"
  rr_name :: "string option"
  rr_region :: "string option"
  rr_sector :: "string option"
  rr_sharedRisks :: nat
  rr_similarityScore :: rat
  rr_exposure :: int

record pathway_risk =
  pr_riskId :: "string option"
  pr_riskName :: "string option"
  pr_description :: "string option"
  pr_severity :: "string option"
  pr_exposureAmount :: "int option"
  pr_detectedDate :: "string option"
  pr_evidence :: "string option"

record pathway_result =
  pw_risk :: pathway_risk
  pw_itReturn :: filing
  pw_efrisReturn :: filing
  pw_variance :: "int option"

record case_row =
  cr_tin :: "string option"
  cr_name :: "string option"
  cr_region :: "string option"
  cr_sector :: "string option"
  cr_riskId :: "string option"
  cr_riskName :: "string option"
  cr_riskCount :: "nat option"
  cr_exposure :: int
  cr_detectedDate :: "string option"

record sector_row =
  sr_sector :: "string option"
  sr_riskId :: "string option"
  sr_riskName :: "string option"
  sr_severity :: "string option"
  sr_prevalence :: nat
  sr_totalExposure :: int
  sr_averageExposure :: int

record tax_store =
  Taxpayer :: "taxpayer_node list"
  RiskFlag :: "risk_flag_node list"
  FLAGGED_BY :: "flagged_by list"
  ITReturn :: "filing list"
  FILED :: "(nat \<times> nat) list"
  EFRISReturn :: "filing list"
  REPORTED :: "(nat \<times> nat) list"
  pathway_rows :: "string \<Rightarrow> string option \<Rightarrow> pathway_result list"
  sector_rows :: "string option \<Rightarrow> sector_row list"
  failing :: "statement list"

text \<open>Every call of \<^verbatim>\<open>graph.run\<close> is recorded with its parameters.\<close>

type_synonym store_call = "statement \<times> string option list"

text \<open>
  \<^verbatim>\<open>search_taxpayer_by_tin\<close>. \<^verbatim>\<open>OPTIONAL MATCH\<close> keeps a taxpayer that has no
  relationship of the kind, with \<^verbatim>\<open>null\<close> in the place of the relationship and of its
  end node; the map built from such a row has the value \<^verbatim>\<open>null\<close> under every key, and
  \<^verbatim>\<open>collect\<close> takes it like any other map. \<^verbatim>\<open>collect(DISTINCT ...)\<close> keeps each
  different map once. The returned map mixes the taxpayer's properties with the three
  collections, so there is one row for each different tuple of these properties; the
  function returns the first row. A filing node is the four values that the statement
  returns of it.
\<close>

definition collect_distinct :: "'a list \<Rightarrow> 'a list" where
  "collect_distinct xs = rev (remdups (rev xs))"

definition optional_match :: "'a list \<Rightarrow> 'a \<Rightarrow> 'a list" where
  "optional_match matches null = (if matches = [] then [null] else matches)"

definition null_risk :: risk_entry where
  "null_risk =
     \<lparr>re_riskId = None, re_riskName = None, re_severity = None, re_exposureAmount = None,
      re_detectedDate = None\<rparr>"

definition null_filing :: filing where
  "null_filing = (None, None, None, None)"

definition risk_entry_of :: "tax_store \<Rightarrow> flagged_by \<Rightarrow> risk_entry" where
  "risk_entry_of g f =
     \<lparr>re_riskId = RiskID (RiskFlag g ! fb_risk f), re_riskName = RiskName (RiskFlag g ! fb_risk f),
      re_severity = Severity (RiskFlag g ! fb_risk f), re_exposureAmount = fb_ExposureAmount f,
      re_detectedDate = fb_DetectedDate f\<rparr>"

definition taxpayer_info_of :: "tax_store \<Rightarrow> nat \<Rightarrow> taxpayer_info" where
  "taxpayer_info_of g i =
     (let t = Taxpayer g ! i
      in \<lparr>ti_tin = TIN t, ti_name = TaxpayerName t, ti_region = Region t, ti_sector = Sector t,
          ti_status = ComplianceStatus t, ti_createdDate = TaxpayerCreatedDate t\<rparr>)"

definition risks_of_node :: "tax_store \<Rightarrow> nat \<Rightarrow> risk_entry list" where
  "risks_of_node g i =
     optional_match
       (map (risk_entry_of g)
          [f \<leftarrow> FLAGGED_BY g. fb_taxpayer f = i \<and> fb_risk f < length (RiskFlag g)])
       null_risk"

definition filings_of_node :: "filing list \<Rightarrow> (nat \<times> nat) list \<Rightarrow> nat \<Rightarrow> filing list" where
  "filings_of_node nodes rels i =
     optional_match (map (\<lambda>r. nodes ! snd r) [r \<leftarrow> rels. fst r = i \<and> snd r < length nodes])
       null_filing"

definition tin_statement :: "tax_store \<Rightarrow> string \<Rightarrow> tin_result list" where
  "tin_statement g tin =
     (let matched = nodes_where (\<lambda>t. TIN t = Some tin) (Taxpayer g);
          row = (\<lambda>k.
            let members = [i \<leftarrow> matched. taxpayer_info_of g i = k]
            in \<lparr>tr_taxpayer = k,
                tr_risks = collect_distinct (concat (map (risks_of_node g) members)),
                tr_itReturns = collect_distinct
                   (concat (map (filings_of_node (ITReturn g) (FILED g)) members)),
                tr_efrisReturns = collect_distinct
                   (concat (map (filings_of_node (EFRISReturn g) (REPORTED g)) members))\<rparr>)
      in map row (collect_distinct (map (taxpayer_info_of g) matched)))"

definition search_taxpayer_by_tin :: "tax_store \<Rightarrow> string \<Rightarrow> store_call list \<times> tin_result option" where
  "search_taxpayer_by_tin g tin =
     ([(SearchTin, [Some tin])],
      if SearchTin \<in> set (failing g) then None
      else (case tin_statement g tin of [] \<Rightarrow> None | r # rs \<Rightarrow> Some r))"

text \<open>
  \<^verbatim>\<open>toLower(a) CONTAINS toLower(b)\<close>; with a \<^verbatim>\<open>null\<close> operand the predicate is not true.
\<close>

definition cypher_contains_lower :: "string option \<Rightarrow> string option \<Rightarrow> bool" where
  "cypher_contains_lower a b =
     (case (a, b) of (Some x, Some y) \<Rightarrow> py_in (py_lower y) (py_lower x) | _ \<Rightarrow> False)"

text \<open>\<^verbatim>\<open>SUM\<close> skips \<^verbatim>\<open>null\<close>; \<^verbatim>\<open>COUNT(DISTINCT x)\<close> counts the different values.\<close>

definition cypher_sum :: "int option list \<Rightarrow> int" where
  "cypher_sum xs = sum_list (map (\<lambda>x. dict_get x 0) xs)"

definition count_distinct :: "'a list \<Rightarrow> nat" where
  "count_distinct xs = length (remdups xs)"

definition order_by_desc :: "('a \<Rightarrow> int) \<Rightarrow> 'a list \<Rightarrow> 'a list" where
  "order_by_desc f rows = sort_key (\<lambda>r. - f r) rows"

text \<open>
  \<^verbatim>\<open>search_taxpayer_by_name\<close>. The returned map mixes the taxpayer's properties with
  \<^verbatim>\<open>COUNT\<close> and \<^verbatim>\<open>SUM\<close>, so the rows are grouped by these properties; a taxpayer
  without a flag still gives a row, by \<^verbatim>\<open>OPTIONAL MATCH\<close>.
\<close>

definition name_key ::
    "tax_store \<Rightarrow> nat \<Rightarrow> string option \<times> string option \<times> string option \<times> string option \<times> string option" where
  "name_key g i =
     (let t = Taxpayer g ! i in (TIN t, TaxpayerName t, Region t, Sector t, ComplianceStatus t))"

definition name_statement :: "tax_store \<Rightarrow> string option \<Rightarrow> name_row list" where
  "name_statement g name =
     (let matched = nodes_where (\<lambda>t. cypher_contains_lower (TaxpayerName t) name) (Taxpayer g);
          row = (\<lambda>k.
            let members = [i \<leftarrow> matched. name_key g i = k];
                flagged = [f \<leftarrow> FLAGGED_BY g. fb_taxpayer f \<in> set members]
            in \<lparr>nr_tin = fst k, nr_name = fst (snd k), nr_region = fst (snd (snd k)),
                nr_sector = fst (snd (snd (snd k))), nr_status = snd (snd (snd (snd k))),
                nr_riskCount = count_distinct (map fb_risk flagged),
                nr_totalExposure = cypher_sum (map fb_ExposureAmount flagged)\<rparr>)
      in take 10 (order_by_desc nr_totalExposure (map row (remdups (map (name_key g) matched)))))"

definition search_taxpayer_by_name :: "tax_store \<Rightarrow> string option \<Rightarrow> store_call list \<times> name_row list" where
  "search_taxpayer_by_name g name =
     ([(SearchName, [name])],
      if SearchName \<in> set (failing g) then [] else name_statement g name)"

text \<open>
  \<^verbatim>\<open>find_related_taxpayers\<close>. \<^verbatim>\<open>ROUND(x, 1)\<close> rounds to one decimal, a half away from
  zero; it is computed here on the exact quotient. \<^verbatim>\<open>ROUND(x, 0)\<close> of a sum of integers
  is that sum.
\<close>

definition cypher_round1 :: "rat \<Rightarrow> rat" where
  "cypher_round1 x = sgn x * of_int \<lfloor>\<bar>x\<bar> * 10 + 1 / 2\<rfloor> / 10"

definition related_matches :: "tax_store \<Rightarrow> string \<Rightarrow> (nat \<times> nat \<times> int option) list" where
  "related_matches g tin =
     [(fb_taxpayer related, fb_risk flagged, fb_ExposureAmount related).
        flagged \<leftarrow> FLAGGED_BY g,
        fb_taxpayer flagged \<in> set (nodes_where (\<lambda>t. TIN t = Some tin) (Taxpayer g)),
        related \<leftarrow> FLAGGED_BY g,
        fb_risk related = fb_risk flagged,
        fb_taxpayer related < length (Taxpayer g),
        TIN (Taxpayer g ! fb_taxpayer related) \<noteq> None,
        TIN (Taxpayer g ! fb_taxpayer related) \<noteq> Some tin]"

definition related_row_of :: "tax_store \<Rightarrow> string \<Rightarrow> nat \<Rightarrow> related_row" where
  "related_row_of g tin t2 =
     (let mine = [m \<leftarrow> related_matches g tin. fst m = t2];
          shared_risk_count = count_distinct (map (\<lambda>m. fst (snd m)) mine);
          avg_exposure = cypher_sum (map (\<lambda>m. snd (snd m)) mine)
      in \<lparr>rr_tin = TIN (Taxpayer g ! t2), rr_name = TaxpayerName (Taxpayer g ! t2),
          rr_region = Region (Taxpayer g ! t2), rr_sector = Sector (Taxpayer g ! t2),
          rr_sharedRisks = shared_risk_count,
          rr_similarityScore = cypher_round1 (100 * of_nat shared_risk_count / 18),
          rr_exposure = avg_exposure\<rparr>)"

definition related_statement :: "tax_store \<Rightarrow> string \<Rightarrow> related_row list" where
  "related_statement g tin =
     take 10 (order_by_desc (\<lambda>r. int (rr_sharedRisks r))
       (map (related_row_of g tin) (remdups (map fst (related_matches g tin)))))"

definition find_related_taxpayers :: "tax_store \<Rightarrow> string \<Rightarrow> store_call list \<times> related_row list" where
  "find_related_taxpayers g tin =
     ([(FindRelated, [Some tin])],
      if FindRelated \<in> set (failing g) then [] else related_statement g tin)"

definition get_risk_pathway ::
    "tax_store \<Rightarrow> string \<Rightarrow> string option \<Rightarrow> store_call list \<times> pathway_result option" where
  "get_risk_pathway g tin risk_id =
     ([(RiskPathway, [Some tin, risk_id])],
      if RiskPathway \<in> set (failing g) then None
      else (case pathway_rows g tin risk_id of [] \<Rightarrow> None | r # rs \<Rightarrow> Some r))"

text \<open>
  \<^verbatim>\<open>find_high_impact_cases\<close>: with a risk identifier one row per relationship, otherwise
  one row per taxpayer (grouped by the four properties returned).
\<close>

definition exposure_at_least :: "int \<Rightarrow> flagged_by \<Rightarrow> bool" where
  "exposure_at_least min_exposure f =
     (case fb_ExposureAmount f of None \<Rightarrow> False | Some x \<Rightarrow> min_exposure \<le> x)"

definition case_key ::
    "tax_store \<Rightarrow> flagged_by \<Rightarrow> string option \<times> string option \<times> string option \<times> string option" where
  "case_key g f =
     (let t = Taxpayer g ! fb_taxpayer f in (TIN t, TaxpayerName t, Region t, Sector t))"

definition risk_case_statement :: "tax_store \<Rightarrow> string \<Rightarrow> int \<Rightarrow> case_row list" where
  "risk_case_statement g risk_id min_exposure =
     (let flagged = [f \<leftarrow> FLAGGED_BY g.
                       fb_taxpayer f < length (Taxpayer g) \<and> fb_risk f < length (RiskFlag g) \<and>
                       RiskID (RiskFlag g ! fb_risk f) = Some risk_id \<and>
                       exposure_at_least min_exposure f];
          row = (\<lambda>f. \<lparr>cr_tin = fst (case_key g f), cr_name = fst (snd (case_key g f)),
                       cr_region = fst (snd (snd (case_key g f))),
                       cr_sector = snd (snd (snd (case_key g f))),
                       cr_riskId = RiskID (RiskFlag g ! fb_risk f),
                       cr_riskName = RiskName (RiskFlag g ! fb_risk f),
                       cr_riskCount = None,
                       cr_exposure = dict_get (fb_ExposureAmount f) 0,
                       cr_detectedDate = fb_DetectedDate f\<rparr>)
      in take 20 (order_by_desc cr_exposure (map row flagged)))"

definition all_case_statement :: "tax_store \<Rightarrow> int \<Rightarrow> case_row list" where
  "all_case_statement g min_exposure =
     (let flagged = [f \<leftarrow> FLAGGED_BY g.
                       fb_taxpayer f < length (Taxpayer g) \<and> fb_risk f < length (RiskFlag g) \<and>
                       exposure_at_least min_exposure f];
          row = (\<lambda>k.
            let mine = [f \<leftarrow> flagged. case_key g f = k]
            in \<lparr>cr_tin = fst k, cr_name = fst (snd k), cr_region = fst (snd (snd k)),
                cr_sector = snd (snd (snd k)),
                cr_riskId = None, cr_riskName = None,
                cr_riskCount = Some (count_distinct (map fb_risk mine)),
                cr_exposure = cypher_sum (map fb_ExposureAmount mine),
                cr_detectedDate = None\<rparr>)
      in take 20 (order_by_desc cr_exposure (map row (remdups (map (case_key g) flagged)))))"

definition find_high_impact_cases ::
    "tax_store \<Rightarrow> string option \<Rightarrow> int \<Rightarrow> store_call list \<times> case_row list" where
  "find_high_impact_cases g risk_id min_exposure =
     (case risk_id of
        Some (c # cs) \<Rightarrow>
          ([(HighImpact, [risk_id])],
           if HighImpact \<in> set (failing g) then []
           else risk_case_statement g (c # cs) min_exposure)
      | _ \<Rightarrow>
          ([(HighImpact, [])],
           if HighImpact \<in> set (failing g) then []
           else all_case_statement g min_exposure))"

definition get_sector_risk_profile :: "tax_store \<Rightarrow> string option \<Rightarrow> store_call list \<times> sector_row list" where
  "get_sector_risk_profile g sector =
     ([(SectorProfile, [sector])],
      if SectorProfile \<in> set (failing g) then [] else sector_rows g sector)"

section \<open>\<^verbatim>\<open>generate_response\<close>\<close>

text \<open>
  The answer of \<^verbatim>\<open>generate_response\<close> is a text and a dictionary for the visualisation.
  Each text template of the source is a constructor of \<open>response\<close> that keeps the
  values the template interpolates; the sign the text starts with is \<open>leading_sign\<close>. The
  dictionary is \<open>NoViz\<close> for \<^verbatim>\<open>{}\<close> and otherwise its \<^verbatim>\<open>type\<close> with its \<^verbatim>\<open>data\<close>.
  The only exception the function can raise on the rows of the statements is the
  \<^verbatim>\<open>TypeError\<close> of arithmetic on \<^verbatim>\<open>None\<close>.
\<close>

datatype py_error = TypeError

datatype response =
    FoundTaxpayer taxpayer_info nat int nat nat string
  | TinNotFound string
  | ProvideTinToSearch
  | FoundByName nat "string option"
  | NoNameMatch "string option"
  | FoundRelated nat string
  | NoRelatedFound
  | ProvideTinForRelated
  | EvidencePathway "string option" "string option" "string option" int "string option"
  | NoPathwayFound
  | ProvideTin
  | FoundHighImpact nat
  | NoHighImpact
  | SectorRiskProfile "string option" nat
  | NoSectorData "string option"
  | HelpText

datatype sign = CheckMark | CrossMark | QuestionMark | Robot

fun leading_sign :: "response \<Rightarrow> sign" where
  "leading_sign (FoundTaxpayer t n e i f a) = CheckMark"
| "leading_sign (TinNotFound tin) = CrossMark"
| "leading_sign ProvideTinToSearch = QuestionMark"
| "leading_sign (FoundByName n name) = CheckMark"
| "leading_sign (NoNameMatch name) = CrossMark"
| "leading_sign (FoundRelated n tin) = CheckMark"
| "leading_sign NoRelatedFound = CrossMark"
| "leading_sign ProvideTinForRelated = QuestionMark"
| "leading_sign (EvidencePathway n r rn e d) = CheckMark"
| "leading_sign NoPathwayFound = CrossMark"
| "leading_sign ProvideTin = QuestionMark"
| "leading_sign (FoundHighImpact n) = CheckMark"
| "leading_sign NoHighImpact = CrossMark"
| "leading_sign (SectorRiskProfile s n) = CheckMark"
| "leading_sign (NoSectorData s) = CrossMark"
| "leading_sign HelpText = Robot"

datatype viz =
    NoViz
  | TaxpayerViz tin_result
  | SearchResultsViz "name_row list"
  | RelatedViz "related_row list"
  | PathwayViz pathway_result
  | CasesViz "case_row list"
  | SectorViz "sector_row list"

text \<open>\<^verbatim>\<open>params.get(key)\<close> and \<^verbatim>\<open>params.get(key, default)\<close>.\<close>

definition params_get :: "params \<Rightarrow> string \<Rightarrow> string option" where
  "params_get params key = (case map_of params key of None \<Rightarrow> None | Some v \<Rightarrow> v)"

definition params_get_default :: "params \<Rightarrow> string \<Rightarrow> string \<Rightarrow> string option" where
  "params_get_default params key d = (case map_of params key of None \<Rightarrow> Some d | Some v \<Rightarrow> v)"

text \<open>\<^verbatim>\<open>sum(...)\<close> over values that may be \<^verbatim>\<open>None\<close>.\<close>

fun py_sum :: "int option list \<Rightarrow> py_error + int" where
  "py_sum [] = Inr 0"
| "py_sum (None # xs) = Inl TypeError"
| "py_sum (Some x # xs) = (case py_sum xs of Inl e \<Rightarrow> Inl e | Inr s \<Rightarrow> Inr (x + s))"

text \<open>
  \<^verbatim>\<open>[r for r in ... if r]\<close>: an entry is a dictionary with the keys of the statement's
  map, which is true in Python whatever its values are.
\<close>

definition truthy_entry :: "'a \<Rightarrow> bool" where
  "truthy_entry r = True"

definition recommended_action :: "nat \<Rightarrow> string" where
  "recommended_action risk_count =
     (if risk_count \<ge> 10 then ''CRITICAL - Immediate Audit''
      else if risk_count \<ge> 5 then ''HIGH PRIORITY - Schedule Audit''
      else if risk_count \<ge> 2 then ''MEDIUM - Review Risk Profile''
      else ''LOW - Routine Monitoring'')"

definition generate_response ::
    "tax_store \<Rightarrow> string \<Rightarrow> params \<Rightarrow> store_call list \<times> (py_error + response \<times> viz)" where
  "generate_response g intent params =
    (if intent = ''search_tin'' then
       (case params_get params ''extracted_value'' of
          Some (c # cs) \<Rightarrow>
            (case search_taxpayer_by_tin g (c # cs) of
               (calls, Some result) \<Rightarrow>
                 (let risk_count = length (filter truthy_entry (tr_risks result)) in
                  case py_sum (map re_exposureAmount (filter truthy_entry (tr_risks result))) of
                    Inl e \<Rightarrow> (calls, Inl e)
                  | Inr exposure' \<Rightarrow>
                      (calls,
                       Inr (FoundTaxpayer (tr_taxpayer result) risk_count exposure'
                              (length (filter truthy_entry (tr_itReturns result)))
                              (length (filter truthy_entry (tr_efrisReturns result)))
                              (recommended_action risk_count),
                            TaxpayerViz result)))
             | (calls, None) \<Rightarrow> (calls, Inr (TinNotFound (c # cs), NoViz)))
        | _ \<Rightarrow> ([], Inr (ProvideTinToSearch, NoViz)))
     else if intent = ''search_name'' then
       (let name = params_get_default params ''extracted_value'' '''' in
        case search_taxpayer_by_name g name of
          (calls, []) \<Rightarrow> (calls, Inr (NoNameMatch name, NoViz))
        | (calls, results) \<Rightarrow>
            (calls, Inr (FoundByName (length results) name, SearchResultsViz results)))
     else if intent = ''related'' then
       (case params_get params ''extracted_value'' of
          Some (c # cs) \<Rightarrow>
            (case find_related_taxpayers g (c # cs) of
               (calls, []) \<Rightarrow> (calls, Inr (NoRelatedFound, NoViz))
             | (calls, related) \<Rightarrow>
                 (calls, Inr (FoundRelated (length related) (c # cs), RelatedViz related)))
        | _ \<Rightarrow> ([], Inr (ProvideTinForRelated, NoViz)))
     else if intent = ''pathway'' then
       (case params_get params ''extracted_value'' of
          Some (c # cs) \<Rightarrow>
            (case search_taxpayer_by_tin g (c # cs) of
               (calls, Some taxpayer) \<Rightarrow>
                 (case tr_risks taxpayer of
                    [] \<Rightarrow> (calls, Inr (NoPathwayFound, NoViz))
                  | first # others \<Rightarrow>
                      (case get_risk_pathway g (c # cs) (re_riskId first) of
                         (calls', Some pathway) \<Rightarrow>
                           (case pr_exposureAmount (pw_risk pathway) of
                              None \<Rightarrow> (calls @ calls', Inl TypeError)
                            | Some amount \<Rightarrow>
                                (calls @ calls',
                                 Inr (EvidencePathway (ti_name (tr_taxpayer taxpayer))
                                        (re_riskId first) (pr_riskName (pw_risk pathway)) amount
                                        (pr_detectedDate (pw_risk pathway)),
                                      PathwayViz pathway)))
                       | (calls', None) \<Rightarrow> (calls @ calls', Inr (NoPathwayFound, NoViz))))
             | (calls, None) \<Rightarrow> (calls, Inr (NoPathwayFound, NoViz)))
        | _ \<Rightarrow> ([], Inr (ProvideTin, NoViz)))
     else if intent = ''high_impact'' then
       (case find_high_impact_cases g None 1000000000 of
          (calls, []) \<Rightarrow> (calls, Inr (NoHighImpact, NoViz))
        | (calls, cases) \<Rightarrow> (calls, Inr (FoundHighImpact (length cases), CasesViz cases)))
     else if intent = ''sector_analysis'' then
       (let sector = params_get_default params ''extracted_value'' ''Manufacturing'' in
        case get_sector_risk_profile g sector of
          (calls, []) \<Rightarrow> (calls, Inr (NoSectorData sector, NoViz))
        | (calls, profile) \<Rightarrow>
            (calls, Inr (SectorRiskProfile sector (length profile), SectorViz profile)))
     else ([], Inr (HelpText, NoViz)))"

text \<open>The order of the four recommendations, for comparing them.\<close>

definition tier_rank :: "string \<Rightarrow> nat" where
  "tier_rank action =
     (if action = ''CRITICAL - Immediate Audit'' then 3
      else if action = ''HIGH PRIORITY - Schedule Audit'' then 2
      else if action = ''MEDIUM - Review Risk Profile'' then 1
      else 0)"



definition empty_store :: tax_store where
  "empty_store =
     \<lparr>Taxpayer = [], RiskFlag = [], FLAGGED_BY = [], ITReturn = [], FILED = [],
      EFRISReturn = [], REPORTED = [],
      pathway_rows = (\<lambda>tin risk_id. []), sector_rows = (\<lambda>sector. []), failing = []\<rparr>"

text \<open>
  A store for the worked examples: 22 taxpayers named \<open>Acme\<close> with the identifiers
  \<open>a\<close>, \<open>b\<close>, ..., each flagged by the first risk with an exposure of at least one
  billion; the first two are flagged by two more risks.
\<close>

definition demo_taxpayer :: "nat \<Rightarrow> taxpayer_node" where
  "demo_taxpayer i =
     \<lparr>TIN = Some [char_of (97 + i)], TaxpayerName = Some ''Acme'',
      Region = None, Sector = None, ComplianceStatus = None, TaxpayerCreatedDate = None\<rparr>"

definition demo_flag :: "nat \<Rightarrow> nat \<Rightarrow> int \<Rightarrow> flagged_by" where
  "demo_flag t r x =
     \<lparr>fb_taxpayer = t, fb_risk = r, fb_ExposureAmount = Some x, fb_DetectedDate = None\<rparr>"

definition demo_store :: tax_store where
  "demo_store =
     \<lparr>Taxpayer = map demo_taxpayer [0..<22],
      RiskFlag = map (\<lambda>k. \<lparr>RiskID = Some [char_of (48 + k)],
                             RiskName = None, Severity = None\<rparr>) [0..<3],
      FLAGGED_BY = map (\<lambda>t. demo_flag t 0 (1000000000 + int t)) [0..<22] @
                   [demo_flag 0 1 5, demo_flag 0 2 5, demo_flag 1 1 5, demo_flag 1 2 5],
      ITReturn = [], FILED = [], EFRISReturn = [], REPORTED = [],
      pathway_rows = (\<lambda>tin risk_id. []),
      sector_rows = (\<lambda>sector. []),
      failing = []\<rparr>"

text \<open>The relationships that pass the filter of the statement without a risk identifier.\<close>

definition flagged_cases :: "tax_store \<Rightarrow> int \<Rightarrow> flagged_by list" where
  "flagged_cases g m =
     [f \<leftarrow> FLAGGED_BY g.
        fb_taxpayer f < length (Taxpayer g) \<and> fb_risk f < length (RiskFlag g) \<and>
        exposure_at_least m f]"

text \<open>
  The number of different risk flags that flag the taxpayers with a given identifier, and
  two stores with one taxpayer and one risk flag: in the first nothing flags the taxpayer,
  in the second the risk flags it through two relationships with different amounts.
\<close>

definition risk_flag_count :: "tax_store \<Rightarrow> string \<Rightarrow> nat" where
  "risk_flag_count g tin =
     count_distinct
       (map fb_risk
          [f \<leftarrow> FLAGGED_BY g. fb_taxpayer f < length (Taxpayer g) \<and> fb_risk f < length (RiskFlag g) \<and>
                               TIN (Taxpayer g ! fb_taxpayer f) = Some tin])"

definition unflagged_store :: tax_store where
  "unflagged_store =
     empty_store\<lparr>Taxpayer := [demo_taxpayer 0],
                   RiskFlag := [\<lparr>RiskID = Some ''0'', RiskName = None, Severity = None\<rparr>]\<rparr>"

definition twice_flagged_store :: tax_store where
  "twice_flagged_store =
     unflagged_store\<lparr>FLAGGED_BY := [demo_flag 0 0 1000000000, demo_flag 0 0 2000000000]\<rparr>"

text \<open>A small store for the worked examples: one taxpayer, one auditor, one risk flag.\<close>

definition demo_env :: "nat \<Rightarrow> call_env" where
  "demo_env n =
     \<lparr>datetime_now = n, strftime_now = ''2025-01-01 10:00'',
      randomUUID = (\<lambda>k. ''TASK'' @ replicate k CHR ''x'')\<rparr>"

definition demo_graph :: "bool \<Rightarrow> task_graph" where
  "demo_graph b =
     \<lparr>Taxpayer_TIN = [''1000000001''], Auditor_ID = [''AUD0002''], RiskFlag_ID = [''R01''],
      AuditTask = [], ASSIGNED_TO = [], TARGETS = [], LINKED_TO = [], run_raises = False,
      optional_keeps_binding = b\<rparr>"

definition demo_task_data :: task_data where
  "demo_task_data =
     \<lparr>taxpayer_tin = Some ''1000000001'', auditor_id = Some ''AUD0002'',
      task_name = Some ''Verify returns'', due_date = Some 1700000000000, description = None,
      priority = None, exposure = None, notes_text = None, assigned_by = None,
      risk_ids = Some [''R01'']\<rparr>"

definition demo_created :: "bool \<Rightarrow> task_graph" where
  "demo_created b = fst (create_audit_task (demo_env 1) (demo_graph b) demo_task_data)"

section \<open>Properties of the audit task store\<close>

lemma progress_on_task:
  assumes "progress_in_range g"
    and "\<And>t. 0 \<le> ProgressPercent t \<Longrightarrow> ProgressPercent t \<le> 100 \<Longrightarrow>
           0 \<le> ProgressPercent (f t) \<and> ProgressPercent (f t) \<le> 100"
  shows "progress_in_range (on_task i f g)"
  using assms by (auto simp: progress_in_range_def on_task_def list_all_iff)

lemma progress_other_fields:
  "progress_in_range (g\<lparr>ASSIGNED_TO := x\<rparr>) = progress_in_range g"
  "progress_in_range (g\<lparr>LINKED_TO := y\<rparr>) = progress_in_range g"
  by (simp_all add: progress_in_range_def)

lemma progress_add_task_note:
  "progress_in_range g \<Longrightarrow> progress_in_range (fst (add_task_note e g i n))"
  by (auto simp: add_task_note_def append_note_def intro!: progress_on_task)

lemma progress_update_task_status:
  "progress_in_range g \<Longrightarrow> progress_in_range (fst (update_task_status e g i s n))"
  by (auto simp: update_task_status_def Let_def intro!: progress_on_task progress_add_task_note)

lemma progress_update_task_progress:
  "progress_in_range g \<Longrightarrow> progress_in_range (fst (update_task_progress e g i p))"
  by (auto simp: update_task_progress_def intro!: progress_on_task)

lemma progress_reassign_task:
  "progress_in_range g \<Longrightarrow> progress_in_range (fst (reassign_task e g i a r))"
  by (auto simp: reassign_task_def Let_def progress_other_fields intro!: progress_on_task)

lemma progress_link_risk_to_task:
  "progress_in_range g \<Longrightarrow> progress_in_range (fst (link_risk_to_task e g i r))"
  by (auto simp: link_risk_to_task_def Let_def progress_other_fields intro!: progress_on_task)

lemma progress_complete_task:
  "progress_in_range g \<Longrightarrow> progress_in_range (fst (complete_task e g i n))"
  by (auto simp: complete_task_def append_note_def intro!: progress_on_task)

lemma create_audit_task_appends:
  "\<exists>new. AuditTask (fst (create_audit_task e g td)) = AuditTask g @ new \<and>
         (\<forall>t \<in> set new. ProgressPercent t = 0)"
  by (auto simp: create_audit_task_def Let_def new_task_def split: option.splits)

lemma progress_create_audit_task:
  "progress_in_range g \<Longrightarrow> progress_in_range (fst (create_audit_task e g td))"
  using create_audit_task_appends[of e g td]
  by (auto simp: progress_in_range_def list_all_iff)

lemma progress_apply_task_op:
  "progress_in_range g \<Longrightarrow> progress_in_range (fst (apply_task_op e g op))"
  by (cases op)
     (simp_all add: progress_create_audit_task progress_update_task_status
        progress_update_task_progress progress_reassign_task progress_add_task_note
        progress_link_risk_to_task progress_complete_task)

lemma demo_created_tasks:
  "AuditTask (demo_created b) =
     [new_task (demo_env 1) ''Verify returns'' 1700000000000 demo_task_data 0]"
  by (simp add: demo_created_def create_audit_task_def demo_graph_def demo_task_data_def
        nodes_where_def Let_def)

lemma demo_created_reachable: "\<not> run_raises (demo_created b)"
  by (simp add: demo_created_def create_audit_task_def demo_graph_def demo_task_data_def Let_def)

text \<open>
  C9. Every operation that writes a task's progress keeps it between 0 and 100: whatever
  write operation is applied, a store whose tasks all have a progress in that range stays
  such a store. Creation leaves the existing tasks as they are and gives every task it adds
  the progress 0; the progress update stores \<open>max 0 (min 100 p)\<close> in every task with the
  given identifier and leaves the progress of the others; completion stores 100 there.
\<close>

theorem progress_percent_invariant:
  "(progress_in_range g \<longrightarrow> progress_in_range (fst (apply_task_op e g op)))
   \<and> take (length (AuditTask g)) (AuditTask (fst (create_audit_task e g td))) = AuditTask g
   \<and> (\<forall>t \<in> set (drop (length (AuditTask g)) (AuditTask (fst (create_audit_task e g td)))).
         ProgressPercent t = 0)
   \<and> (\<not> run_raises g \<longrightarrow>
        map ProgressPercent (AuditTask (fst (update_task_progress e g i p))) =
        map (\<lambda>t. if TaskID t = i then max 0 (min 100 p) else ProgressPercent t) (AuditTask g))
   \<and> (\<not> run_raises g \<longrightarrow>
        map ProgressPercent (AuditTask (fst (complete_task e g i n))) =
        map (\<lambda>t. if TaskID t = i then 100 else ProgressPercent t) (AuditTask g))"
proof -
  obtain new where new: "AuditTask (fst (create_audit_task e g td)) = AuditTask g @ new"
      "\<forall>t \<in> set new. ProgressPercent t = 0"
    using create_audit_task_appends by blast
  have "map ProgressPercent (AuditTask (fst (update_task_progress e g i p))) =
        map (\<lambda>t. if TaskID t = i then max 0 (min 100 p) else ProgressPercent t) (AuditTask g)"
    if "\<not> run_raises g"
    using that by (simp add: update_task_progress_def on_task_def)
  moreover have "map ProgressPercent (AuditTask (fst (complete_task e g i n))) =
        map (\<lambda>t. if TaskID t = i then 100 else ProgressPercent t) (AuditTask g)"
    if "\<not> run_raises g"
    using that by (simp add: complete_task_def on_task_def append_note_def)
  ultimately show ?thesis
    using new progress_apply_task_op by simp
qed

theorem progress_percent_invariant_witness:
  "progress_in_range (demo_created True)
   \<and> progress_in_range
       (fst (apply_task_op (demo_env 2) (demo_created True) (UpdateProgress ''TASK'' 250)))
   \<and> \<not> run_raises (demo_created True)
   \<and> map ProgressPercent
       (AuditTask (fst (update_task_progress (demo_env 2) (demo_created True) ''TASK'' 250))) = [100]
   \<and> map ProgressPercent
       (AuditTask (fst (update_task_progress (demo_env 2) (demo_created True) ''TASK'' (- 7)))) = [0]
   \<and> map ProgressPercent
       (AuditTask (fst (complete_task (demo_env 2) (demo_created True) ''TASK'' ''done''))) = [100]
   \<and> map ProgressPercent (AuditTask (demo_created True)) = [0]"
proof -
  have inv: "progress_in_range (demo_created True)"
    by (simp add: progress_in_range_def demo_created_tasks new_task_def)
  have up: "\<not> run_raises (demo_created True)"
    by (rule demo_created_reachable)
  have zero: "map ProgressPercent (AuditTask (demo_created True)) = [0]"
    by (simp add: demo_created_tasks new_task_def)
  note inst = progress_percent_invariant
    [of "demo_created True" "demo_env 2" _ demo_task_data "''TASK''" _ "''done''"]
  have "progress_in_range
       (fst (apply_task_op (demo_env 2) (demo_created True) (UpdateProgress ''TASK'' 250)))"
    using inst[of "UpdateProgress ''TASK'' 250" 250] inv by blast
  moreover have "map ProgressPercent
       (AuditTask (fst (update_task_progress (demo_env 2) (demo_created True) ''TASK'' 250))) = [100]"
    using inst[of "UpdateProgress ''TASK'' 250" 250] up
    by (simp add: demo_created_tasks new_task_def demo_env_def)
  moreover have "map ProgressPercent
       (AuditTask (fst (update_task_progress (demo_env 2) (demo_created True) ''TASK'' (- 7)))) = [0]"
    using inst[of "UpdateProgress ''TASK'' 250" "- 7"] up
    by (simp add: demo_created_tasks new_task_def demo_env_def)
  moreover have "map ProgressPercent
       (AuditTask (fst (complete_task (demo_env 2) (demo_created True) ''TASK'' ''done''))) = [100]"
    using inst[of "UpdateProgress ''TASK'' 250" 250] up
    by (simp add: demo_created_tasks new_task_def demo_env_def)
  ultimately show ?thesis
    using inv up zero by simp
qed

text \<open>
  C5. Completing a task through \<^verbatim>\<open>complete_task\<close> sets the status, the progress 100 and
  the completion date. The status update does not: a task created (progress 0), moved to
  In Progress and then to Completed through \<^verbatim>\<open>update_task_status\<close> ends with the status
  Completed and a completion date, and with the progress 0. From the same state,
  \<^verbatim>\<open>complete_task\<close> gives the progress 100.
\<close>

theorem update_task_status_completed_keeps_progress:
  "\<forall>b. map (\<lambda>t. (Status t, ProgressPercent t, CompletedDate t))
         (AuditTask (fst (update_task_status (demo_env 3)
            (fst (update_task_status (demo_env 2) (demo_created b) ''TASK'' ''In Progress'' ''''))
            ''TASK'' ''Completed'' ''''))) = [(''Completed'', 0, Some 3)]
     \<and> map (\<lambda>t. (Status t, ProgressPercent t, CompletedDate t))
         (AuditTask (fst (complete_task (demo_env 3)
            (fst (update_task_status (demo_env 2) (demo_created b) ''TASK'' ''In Progress'' ''''))
            ''TASK'' ''''))) = [(''Completed'', 100, Some 3)]"
  by (simp add: update_task_status_def complete_task_def append_note_def on_task_def
        demo_created_tasks demo_created_reachable Let_def new_task_def demo_env_def)

section \<open>Properties of the intent classifier\<close>

lemma rmatch_lit: "rmatch (lit k) (s, g) = (if prefix k s then [(drop (length k) s, g)] else [])"
proof (induction k arbitrary: s)
  case Nil
  then show ?case by (simp add: lit_def)
next
  case (Cons c k)
  have l: "lit (c # k) = Cat (Chr (Is c)) (lit k)" by (simp add: lit_def)
  show ?case
    by (cases s) (simp_all add: l Cons)
qed

lemma rmatch_seq_Cons: "rmatch (seq (r # rs)) st = concat (map (rmatch (seq rs)) (rmatch r st))"
  by (simp add: seq_def)

lemma rmatch_seq_Nil: "rmatch (seq []) st = [st]"
  by (simp add: seq_def)

lemma rmatch_lit_seq:
  "rmatch (seq (lit k # rs)) (s, g) = (if prefix k s then rmatch (seq rs) (drop (length k) s, g) else [])"
  by (simp add: rmatch_seq_Cons rmatch_lit)

lemma rmatch_word_group:
  "rmatch word_group (s, g) =
     (if takeWhile is_word_char s = [] then []
      else (dropWhile is_word_char s, Some (takeWhile is_word_char s)) #
           map (\<lambda>k. (drop k s, Some (take k s))) (rev [1..<length (takeWhile is_word_char s)]))"
proof -
  let ?n = "length (takeWhile is_word_char s)"
  have n: "?n \<le> length s" by (rule length_takeWhile_le)
  have in_cl: "in_class WordChar = is_word_char" by (rule ext) simp
  have m: "rmatch word_group (s, g) = map (\<lambda>k. (drop k s, Some (take k s))) (rev [1..<Suc ?n])"
    using n by (simp add: word_group_def greedy_def in_cl comp_def rev_map[symmetric] del: upt_Suc)
  show ?thesis
  proof (cases "?n = 0")
    case True
    then show ?thesis using m by simp
  next
    case False
    then have "1 \<le> ?n" by (simp add: Suc_le_eq)
    then have r: "rev [1..<Suc ?n] = ?n # rev [1..<?n]" by simp
    have dt: "drop ?n s = dropWhile is_word_char s" "take ?n s = takeWhile is_word_char s"
      by (rule dropWhile_eq_drop[symmetric], rule takeWhile_eq_take[symmetric])
    have "rmatch word_group (s, g) =
            (drop ?n s, Some (take ?n s)) # map (\<lambda>k. (drop k s, Some (take k s))) (rev [1..<?n])"
      unfolding m r by simp
    moreover have "takeWhile is_word_char s \<noteq> []" using False by simp
    ultimately show ?thesis by (simp only: dt if_False)
  qed
qed

lemma has_group_key_word: "has_group (seq [lit k, word_group])"
  by (simp add: seq_def word_group_def)

lemma group1_key_word:
  "group1 (seq [lit k, word_group]) (rmatch (seq [lit k, word_group]) (s, None)) =
     (if prefix k s \<and> takeWhile is_word_char (drop (length k) s) \<noteq> []
      then Some (Some (takeWhile is_word_char (drop (length k) s))) else None)"
proof -
  have one: "rmatch (seq [word_group]) st = rmatch word_group st" for st
  proof -
    have "rmatch Eps = (\<lambda>x. [x])" by (rule ext) simp
    then show ?thesis by (simp add: seq_def)
  qed
  show ?thesis
    using has_group_key_word[of k]
    by (simp add: rmatch_lit_seq one rmatch_word_group group1_def)
qed

lemma re_search_key_word:
  "re_search (seq [lit (key @ '' ''), word_group]) s = map_option Some (word_after key s)"
proof (induction s)
  case Nil
  then show ?case by (simp add: group1_key_word)
next
  case (Cons x xs)
  then show ?case by (simp add: group1_key_word)
qed

lemma py_in_prefix: "prefix k s \<Longrightarrow> py_in k s"
  by (cases s) simp_all




lemma detect_loop_tag: "fst (detect_loop cfgs s) \<in> insert ''help'' (set (map fst cfgs))"
  by (induction cfgs s rule: detect_loop.induct) (auto split: option.splits)

lemma detect_loop_skip:
  "list_all (\<lambda>cfg. \<not> pattern_hit s cfg \<and> \<not> keyword_hit s cfg) pre \<Longrightarrow>
   detect_loop (pre @ rest) s = detect_loop rest s"
  by (induction pre) (auto simp: pattern_hit_def keyword_hit_def)

lemma intent_names: "insert ''help'' (set (map fst intents)) = set supported_intents"
  by (auto simp: intents_def supported_intents_def)

text \<open>
  C8. \<^verbatim>\<open>detect_intent\<close> returns for every text (the function has no failing branch), and
  the tag it returns is one of the eight supported ones; when no pattern and no keyword of
  any configuration matches the normalised text, it returns \<^verbatim>\<open>('help', {})\<close>.
\<close>

theorem detect_intent_valid_tag:
  "fst (detect_intent t) \<in> set supported_intents \<and>
   (list_all (\<lambda>cfg. \<not> pattern_hit (py_strip (py_lower t)) cfg \<and>
                     \<not> keyword_hit (py_strip (py_lower t)) cfg) intents
    \<longrightarrow> detect_intent t = (''help'', []))"
proof -
  have "fst (detect_intent t) \<in> set supported_intents"
    using detect_loop_tag[of intents "py_strip (py_lower t)"]
    unfolding intent_names detect_intent_def .
  then show ?thesis
    using detect_loop_skip[of "py_strip (py_lower t)" intents "[]"]
    by (simp add: detect_intent_def)
qed

theorem detect_intent_valid_tag_witness:
  "list_all (\<lambda>cfg. \<not> pattern_hit (py_strip (py_lower ''Hello there'')) cfg \<and>
                     \<not> keyword_hit (py_strip (py_lower ''Hello there'')) cfg) intents
   \<and> detect_intent ''Hello there'' = (''help'', [])"
proof -
  have h: "list_all (\<lambda>cfg. \<not> pattern_hit (py_strip (py_lower ''Hello there'')) cfg \<and>
                     \<not> keyword_hit (py_strip (py_lower ''Hello there'')) cfg) intents"
    by code_simp
  with detect_intent_valid_tag[of "''Hello there''"] show ?thesis by blast
qed

text \<open>
  C1, as stated, fails. For the text \<open>sector tin\<close> the pattern \<^verbatim>\<open>sector (\w+)\<close> of
  \<^verbatim>\<open>sector_analysis\<close> matches, and the classifier returns the keyword result of
  \<^verbatim>\<open>search_tin\<close> (keyword \<open>tin\<close>), which stands earlier in the list.
\<close>

theorem pattern_stage_first_counterexample:
  "\<not> (list_ex (pattern_hit (py_strip (py_lower ''sector tin''))) intents
       \<longrightarrow> pattern_stage_result (detect_intent ''sector tin''))
   \<and> detect_intent ''sector tin'' = (''search_tin'', [])"
  by code_simp

text \<open>
  C1, amended. The configurations are tried one after the other, each with its patterns
  first and its keywords second. When no pattern and no keyword of the configurations
  before a given one matches, that configuration decides as soon as it has a hit: a
  pattern of it that matches gives the pattern result, whatever the keywords are; with
  no pattern of it matching, a keyword of it found in the text gives the keyword result,
  whatever the patterns of the later configurations do.
\<close>

theorem detect_intent_first_config_with_hit:
  assumes "intents = pre @ (intent, patterns, keywords) # post"
    and "list_all (\<lambda>cfg. \<not> pattern_hit (py_strip (py_lower t)) cfg \<and>
                          \<not> keyword_hit (py_strip (py_lower t)) cfg) pre"
  shows "(match_patterns patterns (py_strip (py_lower t)) = Some v \<longrightarrow>
            detect_intent t = (intent, [(''extracted_value'', v)]))
       \<and> (match_patterns patterns (py_strip (py_lower t)) = None \<and>
          list_ex (\<lambda>keyword. py_in keyword (py_strip (py_lower t))) keywords \<longrightarrow>
            detect_intent t = (intent, []))"
  using detect_loop_skip[OF assms(2), of "(intent, patterns, keywords) # post"]
  by (simp add: detect_intent_def assms(1))

theorem detect_intent_first_config_with_hit_witness:
  "intents = [] @ (''search_tin'', fst (snd (hd intents)), snd (snd (hd intents))) # tl intents
   \<and> match_patterns (fst (snd (hd intents))) (py_strip (py_lower ''sector tin'')) = None
   \<and> list_ex (\<lambda>keyword. py_in keyword (py_strip (py_lower ''sector tin''))) (snd (snd (hd intents)))
   \<and> list_ex (pattern_hit (py_strip (py_lower ''sector tin''))) (tl intents)
   \<and> detect_intent ''sector tin'' = (''search_tin'', [])"
proof -
  have a: "intents = [] @ (''search_tin'', fst (snd (hd intents)), snd (snd (hd intents))) # tl intents"
    by (simp add: intents_def)
  have b: "list_all (\<lambda>cfg. \<not> pattern_hit (py_strip (py_lower ''sector tin'')) cfg \<and>
                          \<not> keyword_hit (py_strip (py_lower ''sector tin'')) cfg) []"
    by simp
  have c: "match_patterns (fst (snd (hd intents))) (py_strip (py_lower ''sector tin'')) = None"
    by code_simp
  have d: "list_ex (\<lambda>keyword. py_in keyword (py_strip (py_lower ''sector tin''))) (snd (snd (hd intents)))"
    by code_simp
  have e: "list_ex (pattern_hit (py_strip (py_lower ''sector tin''))) (tl intents)"
    by code_simp
  from detect_intent_first_config_with_hit[OF a b] c d
  have "detect_intent ''sector tin'' = (''search_tin'', [])" by blast
  with a c d e show ?thesis by blast
qed

lemma re_search_search: "re_search (seq [lit ''search '', word_group]) s = map_option Some (word_after ''search'' s)"
  using re_search_key_word[of "''search''" s] by simp

lemma re_search_find: "re_search (seq [lit ''find '', word_group]) s = map_option Some (word_after ''find'' s)"
  using re_search_key_word[of "''find''" s] by simp

lemma intents_shape:
  "\<exists>rest. intents =
      (''search_tin'',
        [seq [lit ''search '', word_group], seq [lit ''find '', word_group],
         seq [lit ''tin '', word_group], seq [lit ''taxpayer '', word_group]],
        [''tin'', ''search'', ''find'', ''taxpayer'']) #
      (''search_name'',
        [seq [lit ''search '', Star Dot, lit '' '', Alt (lit ''taxpayer'') (lit ''company''),
              lit '' '', Group (Plus Dot)],
         seq [lit ''find '', Star Dot, lit '' '', Group (Plus Dot)]],
        [''name'', ''company'', ''business'']) # rest
     \<and> ''search_name'' \<notin> insert ''help'' (set (map fst rest))"
  by (simp add: intents_def)



lemma search_tin_by_word:
  "word_after ''search'' s = Some w \<Longrightarrow>
     detect_loop intents s = (''search_tin'', [(''extracted_value'', Some w)])"
  "word_after ''search'' s = None \<Longrightarrow> word_after ''find'' s = Some w \<Longrightarrow>
     detect_loop intents s = (''search_tin'', [(''extracted_value'', Some w)])"
proof -
  obtain rest where shape: "intents =
      (''search_tin'',
        [seq [lit ''search '', word_group], seq [lit ''find '', word_group],
         seq [lit ''tin '', word_group], seq [lit ''taxpayer '', word_group]],
        [''tin'', ''search'', ''find'', ''taxpayer'']) # rest"
    using intents_shape by blast
  show "word_after ''search'' s = Some w \<Longrightarrow>
     detect_loop intents s = (''search_tin'', [(''extracted_value'', Some w)])"
    unfolding shape by (simp add: re_search_search)
  show "word_after ''search'' s = None \<Longrightarrow> word_after ''find'' s = Some w \<Longrightarrow>
     detect_loop intents s = (''search_tin'', [(''extracted_value'', Some w)])"
    unfolding shape by (simp add: re_search_search re_search_find)
qed

text \<open>
  What the patterns \<^verbatim>\<open>search (\w+)\<close> and \<^verbatim>\<open>find (\w+)\<close> do in general: when the
  normalised text holds \<open>search\<close>, one space and a word character, the classifier returns
  \<^verbatim>\<open>search_tin\<close> with the run of word characters after the leftmost such place; when it
  holds no such place for \<open>search\<close> and one for \<open>find\<close>, the same for \<open>find\<close>.
\<close>

lemma search_find_word_goes_to_search_tin:
  "(word_after ''search'' (py_strip (py_lower t)) = Some w \<longrightarrow>
      detect_intent t = (''search_tin'', [(''extracted_value'', Some w)]))
   \<and> (word_after ''search'' (py_strip (py_lower t)) = None \<and>
      word_after ''find'' (py_strip (py_lower t)) = Some w \<longrightarrow>
      detect_intent t = (''search_tin'', [(''extracted_value'', Some w)]))"
  using search_tin_by_word[of "py_strip (py_lower t)" w]
  by (simp add: detect_intent_def)


section \<open>Properties of the graph queries and of the dispatch\<close>

lemma order_by_desc_sorted: "sorted_wrt (\<ge>) (map f (order_by_desc f rows))"
proof -
  have "sorted (map (\<lambda>r. - f r) (order_by_desc f rows))"
    unfolding order_by_desc_def by (rule sorted_sort_key)
  then show ?thesis
    by (simp add: sorted_wrt_map)
qed

lemma order_by_desc_set: "set (order_by_desc f rows) = set rows"
  by (simp add: order_by_desc_def)

lemma take_sorted_desc: "sorted_wrt (\<ge>) (map f xs) \<Longrightarrow> sorted_wrt (\<ge>) (map f (take n xs))"
  unfolding take_map[symmetric] by (rule sorted_wrt_take)

lemma cypher_sum_lower:
  assumes "mine \<noteq> []" "\<forall>f \<in> set mine. exposure_at_least m f" "0 \<le> m"
  shows "m \<le> cypher_sum (map fb_ExposureAmount mine)"
  using assms
proof (induction mine)
  case Nil
  then show ?case by simp
next
  case (Cons f fs)
  obtain x where x: "fb_ExposureAmount f = Some x" "m \<le> x"
    using Cons.prems(2) by (auto simp: exposure_at_least_def split: option.splits)
  show ?case
  proof (cases fs)
    case Nil
    with x show ?thesis by (simp add: cypher_sum_def dict_get_def)
  next
    case (Cons a list)
    then have "m \<le> cypher_sum (map fb_ExposureAmount fs)"
      using Cons.IH Cons.prems by simp
    then show ?thesis using x Cons.prems(3) by (simp add: cypher_sum_def dict_get_def)
  qed
qed

lemma all_case_statement_rows:
  assumes "c \<in> set (all_case_statement g m)"
  shows "\<exists>f \<in> set (flagged_cases g m).
           cr_exposure c = cypher_sum (map fb_ExposureAmount
              [f' \<leftarrow> flagged_cases g m. case_key g f' = case_key g f])"
proof -
  let ?row = "\<lambda>k. \<lparr>cr_tin = fst k, cr_name = fst (snd k), cr_region = fst (snd (snd k)),
                cr_sector = snd (snd (snd k)),
                cr_riskId = None, cr_riskName = None,
                cr_riskCount = Some (count_distinct (map fb_risk [f \<leftarrow> flagged_cases g m. case_key g f = k])),
                cr_exposure = cypher_sum (map fb_ExposureAmount [f \<leftarrow> flagged_cases g m. case_key g f = k]),
                cr_detectedDate = None\<rparr>"
  have eq: "all_case_statement g m =
      take 20 (order_by_desc cr_exposure (map ?row (remdups (map (case_key g) (flagged_cases g m)))))"
    unfolding all_case_statement_def flagged_cases_def Let_def ..
  from assms have "c \<in> set (order_by_desc cr_exposure (map ?row (remdups (map (case_key g) (flagged_cases g m)))))"
    unfolding eq by (rule in_set_takeD)
  then have "c \<in> ?row ` set (map (case_key g) (flagged_cases g m))"
    unfolding order_by_desc_set by simp
  then obtain f where f: "f \<in> set (flagged_cases g m)" and c: "c = ?row (case_key g f)"
    by auto
  have "cr_exposure c = cypher_sum (map fb_ExposureAmount
              [f' \<leftarrow> flagged_cases g m. case_key g f' = case_key g f])"
    unfolding c by simp
  with f show ?thesis by blast
qed

lemma all_case_statement_props:
  assumes "0 \<le> m"
  shows "length (all_case_statement g m) \<le> 20"
    and "\<forall>c \<in> set (all_case_statement g m). m \<le> cr_exposure c"
    and "sorted_wrt (\<ge>) (map cr_exposure (all_case_statement g m))"
proof -
  show "length (all_case_statement g m) \<le> 20"
    unfolding all_case_statement_def Let_def by simp
  show "sorted_wrt (\<ge>) (map cr_exposure (all_case_statement g m))"
    unfolding all_case_statement_def Let_def
    by (intro take_sorted_desc order_by_desc_sorted)
  show "\<forall>c \<in> set (all_case_statement g m). m \<le> cr_exposure c"
  proof
    fix c assume "c \<in> set (all_case_statement g m)"
    then obtain f where f: "f \<in> set (flagged_cases g m)"
      and c: "cr_exposure c = cypher_sum (map fb_ExposureAmount
              [f' \<leftarrow> flagged_cases g m. case_key g f' = case_key g f])"
      using all_case_statement_rows by blast
    let ?mine = "[f' \<leftarrow> flagged_cases g m. case_key g f' = case_key g f]"
    have "f \<in> set ?mine" using f by simp
    then have ne: "?mine \<noteq> []" by (metis empty_iff list.set(1))
    have "\<forall>f' \<in> set ?mine. exposure_at_least m f'"
      by (simp add: flagged_cases_def)
    then show "m \<le> cr_exposure c"
      unfolding c using cypher_sum_lower[OF ne _ assms] by blast
  qed
qed

lemma find_high_impact_cases_default:
  "snd (find_high_impact_cases g None m) =
     (if HighImpact \<in> set (failing g) then [] else all_case_statement g m)"
  by (simp add: find_high_impact_cases_def)

lemma high_impact_default_props:
  "length (snd (find_high_impact_cases g None 1000000000)) \<le> 20"
  "\<forall>c \<in> set (snd (find_high_impact_cases g None 1000000000)). 1000000000 \<le> cr_exposure c"
  "sorted_wrt (\<ge>) (map cr_exposure (snd (find_high_impact_cases g None 1000000000)))"
proof -
  have z: "(0::int) \<le> 1000000000" by simp
  note p = all_case_statement_props[OF z, of g]
  show "length (snd (find_high_impact_cases g None 1000000000)) \<le> 20"
    unfolding find_high_impact_cases_default using p(1) by (cases "HighImpact \<in> set (failing g)") simp_all
  show "\<forall>c \<in> set (snd (find_high_impact_cases g None 1000000000)). 1000000000 \<le> cr_exposure c"
    unfolding find_high_impact_cases_default using p(2) by (cases "HighImpact \<in> set (failing g)") simp_all
  show "sorted_wrt (\<ge>) (map cr_exposure (snd (find_high_impact_cases g None 1000000000)))"
    unfolding find_high_impact_cases_default using p(3) by (cases "HighImpact \<in> set (failing g)") simp_all
qed

lemma generate_response_high_impact:
  "generate_response g ''high_impact'' params =
     (case find_high_impact_cases g None 1000000000 of
        (calls, []) \<Rightarrow> (calls, Inr (NoHighImpact, NoViz))
      | (calls, cases) \<Rightarrow> (calls, Inr (FoundHighImpact (length cases), CasesViz cases)))"
  unfolding generate_response_def by (simp cong: prod.case_cong list.case_cong)

lemma high_impact_payload:
  assumes "snd (generate_response g ''high_impact'' params) = Inr (resp, CasesViz cases)"
  shows "cases = snd (find_high_impact_cases g None 1000000000)"
  using assms unfolding generate_response_high_impact
  by (cases "find_high_impact_cases g None 1000000000") (auto split: list.splits)

text \<open>
  C7. Whatever the store holds, \<^verbatim>\<open>search_taxpayer_by_name\<close> and
  \<^verbatim>\<open>find_related_taxpayers\<close> return at most 10 records, and the list that the
  \<^verbatim>\<open>high_impact\<close> dispatch hands on is the one of \<^verbatim>\<open>find_high_impact_cases\<close> with its
  default threshold: at most 20 records, each with an exposure of at least one billion,
  in descending order of exposure.
\<close>

theorem result_lists_capped:
  "length (snd (search_taxpayer_by_name g name)) \<le> 10
   \<and> length (snd (find_related_taxpayers g tin)) \<le> 10
   \<and> (\<forall>resp cases. snd (generate_response g ''high_impact'' params) = Inr (resp, CasesViz cases) \<longrightarrow>
         cases = snd (find_high_impact_cases g None 1000000000)
         \<and> length cases \<le> 20
         \<and> (\<forall>c \<in> set cases. 1000000000 \<le> cr_exposure c)
         \<and> sorted_wrt (\<ge>) (map cr_exposure cases))"
proof (intro conjI allI impI)
  show "length (snd (search_taxpayer_by_name g name)) \<le> 10"
    by (simp add: search_taxpayer_by_name_def name_statement_def Let_def)
  show "length (snd (find_related_taxpayers g tin)) \<le> 10"
    by (simp add: find_related_taxpayers_def related_statement_def)
next
  fix resp cases
  assume r: "snd (generate_response g ''high_impact'' params) = Inr (resp, CasesViz cases)"
  show c: "cases = snd (find_high_impact_cases g None 1000000000)"
    using high_impact_payload[OF r] .
  show "length cases \<le> 20"
    unfolding c by (rule high_impact_default_props)
  show "\<forall>c \<in> set cases. 1000000000 \<le> cr_exposure c"
    unfolding c by (rule high_impact_default_props)
  show "sorted_wrt (\<ge>) (map cr_exposure cases)"
    unfolding c by (rule high_impact_default_props)
qed













lemma generate_response_related:
  "generate_response g ''related'' params =
     (case params_get params ''extracted_value'' of
          Some (c # cs) \<Rightarrow>
            (case find_related_taxpayers g (c # cs) of
               (calls, []) \<Rightarrow> (calls, Inr (NoRelatedFound, NoViz))
             | (calls, related) \<Rightarrow>
                 (calls, Inr (FoundRelated (length related) (c # cs), RelatedViz related)))
        | _ \<Rightarrow> ([], Inr (ProvideTinForRelated, NoViz)))"
  unfolding generate_response_def
  by (simp cong: prod.case_cong list.case_cong option.case_cong)





lemma generate_response_search_tin:
  "generate_response g ''search_tin'' params =
       (case params_get params ''extracted_value'' of
          Some (c # cs) \<Rightarrow>
            (case search_taxpayer_by_tin g (c # cs) of
               (calls, Some result) \<Rightarrow>
                 (let risk_count = length (filter truthy_entry (tr_risks result)) in
                  case py_sum (map re_exposureAmount (filter truthy_entry (tr_risks result))) of
                    Inl e \<Rightarrow> (calls, Inl e)
                  | Inr exposure' \<Rightarrow>
                      (calls,
                       Inr (FoundTaxpayer (tr_taxpayer result) risk_count exposure'
                              (length (filter truthy_entry (tr_itReturns result)))
                              (length (filter truthy_entry (tr_efrisReturns result)))
                              (recommended_action risk_count),
                            TaxpayerViz result)))
             | (calls, None) \<Rightarrow> (calls, Inr (TinNotFound (c # cs), NoViz)))
        | _ \<Rightarrow> ([], Inr (ProvideTinToSearch, NoViz)))"
  unfolding generate_response_def by (rule if_P) (rule refl)

lemma generate_response_search_name:
  "generate_response g ''search_name'' params =
       (case search_taxpayer_by_name g (params_get_default params ''extracted_value'' '''') of
          (calls, []) \<Rightarrow>
            (calls, Inr (NoNameMatch (params_get_default params ''extracted_value'' ''''), NoViz))
        | (calls, results) \<Rightarrow>
            (calls, Inr (FoundByName (length results)
                           (params_get_default params ''extracted_value'' ''''),
                         SearchResultsViz results)))"
  unfolding generate_response_def Let_def
  by (simp cong: prod.case_cong list.case_cong option.case_cong)

lemma generate_response_sector:
  "generate_response g ''sector_analysis'' params =
       (case get_sector_risk_profile g
               (params_get_default params ''extracted_value'' ''Manufacturing'') of
          (calls, []) \<Rightarrow>
            (calls, Inr (NoSectorData
                           (params_get_default params ''extracted_value'' ''Manufacturing''), NoViz))
        | (calls, profile) \<Rightarrow>
            (calls, Inr (SectorRiskProfile
                           (params_get_default params ''extracted_value'' ''Manufacturing'')
                           (length profile),
                         SectorViz profile)))"
  unfolding generate_response_def Let_def
  by (simp cong: prod.case_cong list.case_cong option.case_cong)

lemma generate_response_pathway:
  "generate_response g ''pathway'' params =
       (case params_get params ''extracted_value'' of
          Some (c # cs) \<Rightarrow>
            (case search_taxpayer_by_tin g (c # cs) of
               (calls, Some taxpayer) \<Rightarrow>
                 (case tr_risks taxpayer of
                    [] \<Rightarrow> (calls, Inr (NoPathwayFound, NoViz))
                  | first # others \<Rightarrow>
                      (case get_risk_pathway g (c # cs) (re_riskId first) of
                         (calls', Some pathway) \<Rightarrow>
                           (case pr_exposureAmount (pw_risk pathway) of
                              None \<Rightarrow> (calls @ calls', Inl TypeError)
                            | Some amount \<Rightarrow>
                                (calls @ calls',
                                 Inr (EvidencePathway (ti_name (tr_taxpayer taxpayer))
                                        (re_riskId first) (pr_riskName (pw_risk pathway)) amount
                                        (pr_detectedDate (pw_risk pathway)),
                                      PathwayViz pathway)))
                       | (calls', None) \<Rightarrow> (calls @ calls', Inr (NoPathwayFound, NoViz))))
             | (calls, None) \<Rightarrow> (calls, Inr (NoPathwayFound, NoViz)))
        | _ \<Rightarrow> ([], Inr (ProvideTin, NoViz)))"
  unfolding generate_response_def
  by (simp cong: prod.case_cong list.case_cong option.case_cong)

lemma generate_response_pathway_missing:
  assumes "params_get params ''extracted_value'' = None \<or> params_get params ''extracted_value'' = Some ''''"
  shows "generate_response g ''pathway'' params = ([], Inr (ProvideTin, NoViz))"
  using assms unfolding generate_response_pathway by auto

lemma generate_response_related_missing:
  assumes "params_get params ''extracted_value'' = None \<or> params_get params ''extracted_value'' = Some ''''"
  shows "generate_response g ''related'' params = ([], Inr (ProvideTinForRelated, NoViz))"
  using assms unfolding generate_response_related by auto

lemma generate_response_search_tin_missing:
  assumes "params_get params ''extracted_value'' = None \<or> params_get params ''extracted_value'' = Some ''''"
  shows "generate_response g ''search_tin'' params = ([], Inr (ProvideTinToSearch, NoViz))"
  using assms unfolding generate_response_search_tin by auto

lemma search_name_sends_statement:
  "fst (generate_response g ''search_name'' params) =
     [(SearchName, [params_get_default params ''extracted_value'' ''''])]
   \<and> (\<exists>resp v. snd (generate_response g ''search_name'' params) = Inr (resp, v) \<and>
                leading_sign resp \<noteq> QuestionMark)"
  unfolding generate_response_search_name search_taxpayer_by_name_def
  by (simp split: list.splits)

lemma sector_sends_statement:
  "fst (generate_response g ''sector_analysis'' params) =
     [(SectorProfile, [params_get_default params ''extracted_value'' ''Manufacturing''])]
   \<and> (\<exists>resp v. snd (generate_response g ''sector_analysis'' params) = Inr (resp, v) \<and>
                leading_sign resp \<noteq> QuestionMark)"
  unfolding generate_response_sector get_sector_risk_profile_def
  by (simp split: list.splits)

text \<open>
  C2, as stated, fails for \<^verbatim>\<open>search_name\<close> and \<^verbatim>\<open>sector_analysis\<close>, which also read
  the extracted value: the text \<open>company\<close> is classified as \<^verbatim>\<open>search_name\<close> without a
  parameter, and the dispatch then sends the name statement with the empty string and
  answers with the ten taxpayers found; \<^verbatim>\<open>sector_analysis\<close> without a parameter sends
  its statement with \<open>Manufacturing\<close>.
\<close>

theorem search_name_without_parameter_counterexample:
  "detect_intent ''company'' = (''search_name'', [])
   \<and> params_get [] ''extracted_value'' = None
   \<and> generate_response demo_store ''search_name'' [] =
       ([(SearchName, [Some ''''])],
        Inr (FoundByName 10 (Some ''''), SearchResultsViz (name_statement demo_store (Some ''''))))
   \<and> leading_sign (FoundByName 10 (Some '''')) = CheckMark
   \<and> fst (generate_response demo_store ''sector_analysis'' []) =
       [(SectorProfile, [Some ''Manufacturing''])]"
proof -
  have d: "detect_intent ''company'' = (''search_name'', [])" by code_simp
  have n: "length (name_statement demo_store (Some '''')) = 10" by code_simp
  have f: "failing demo_store = []" by (simp add: demo_store_def)
  have p: "params_get_default [] ''extracted_value'' '''' = Some ''''"
    by (simp add: params_get_default_def)
  have a: "generate_response demo_store ''search_name'' [] =
       ([(SearchName, [Some ''''])],
        Inr (FoundByName 10 (Some ''''), SearchResultsViz (name_statement demo_store (Some ''''))))"
    unfolding generate_response_search_name search_taxpayer_by_name_def p using n f
    by (cases "name_statement demo_store (Some '''')") simp_all
  have s: "fst (generate_response demo_store ''sector_analysis'' []) =
       [(SectorProfile, [Some ''Manufacturing''])]"
    using sector_sends_statement[of demo_store "[]"] by (simp add: params_get_default_def)
  show ?thesis using d a s by (simp add: params_get_def)
qed

text \<open>
  C2, amended. With the extracted value absent, \<^verbatim>\<open>None\<close> or the empty string, the
  intents \<^verbatim>\<open>search_tin\<close>, \<^verbatim>\<open>related\<close> and \<^verbatim>\<open>pathway\<close> answer with their question to
  the user and the empty dictionary, and no statement is sent to the store. The intents
  \<^verbatim>\<open>search_name\<close> and \<^verbatim>\<open>sector_analysis\<close> never ask: they send their statement with
  the value that \<^verbatim>\<open>params.get\<close> gives with the default \<open>''\<close> or \<open>Manufacturing\<close>, and
  answer with what the store returns.
\<close>

theorem missing_parameter_prompt_or_default:
  assumes "params_get params ''extracted_value'' = None \<or> params_get params ''extracted_value'' = Some ''''"
  shows "generate_response g ''search_tin'' params = ([], Inr (ProvideTinToSearch, NoViz))
       \<and> generate_response g ''related'' params = ([], Inr (ProvideTinForRelated, NoViz))
       \<and> generate_response g ''pathway'' params = ([], Inr (ProvideTin, NoViz))
       \<and> leading_sign ProvideTinToSearch = QuestionMark
       \<and> leading_sign ProvideTinForRelated = QuestionMark
       \<and> leading_sign ProvideTin = QuestionMark
       \<and> fst (generate_response g ''search_name'' params) =
           [(SearchName, [params_get_default params ''extracted_value'' ''''])]
       \<and> (\<exists>resp v. snd (generate_response g ''search_name'' params) = Inr (resp, v) \<and>
                    leading_sign resp \<noteq> QuestionMark)
       \<and> fst (generate_response g ''sector_analysis'' params) =
           [(SectorProfile, [params_get_default params ''extracted_value'' ''Manufacturing''])]
       \<and> (\<exists>resp v. snd (generate_response g ''sector_analysis'' params) = Inr (resp, v) \<and>
                    leading_sign resp \<noteq> QuestionMark)"
  using generate_response_search_tin_missing[OF assms] generate_response_related_missing[OF assms]
        generate_response_pathway_missing[OF assms]
        search_name_sends_statement[of g params] sector_sends_statement[of g params]
  by simp

theorem missing_parameter_prompt_or_default_witness:
  "params_get [(''extracted_value'', Some '''')] ''extracted_value'' = Some ''''
   \<and> generate_response demo_store ''search_tin'' [(''extracted_value'', Some '''')] =
       ([], Inr (ProvideTinToSearch, NoViz))
   \<and> fst (generate_response demo_store ''search_name'' [(''extracted_value'', Some '''')]) =
       [(SearchName, [Some ''''])]
   \<and> params_get (snd (detect_intent ''tin'')) ''extracted_value'' = None
   \<and> generate_response demo_store (fst (detect_intent ''tin'')) (snd (detect_intent ''tin'')) =
       ([], Inr (ProvideTinToSearch, NoViz))
   \<and> fst (generate_response demo_store ''sector_analysis'' (snd (detect_intent ''tin''))) =
       [(SectorProfile, [Some ''Manufacturing''])]"
proof -
  have a: "params_get [(''extracted_value'', Some '''')] ''extracted_value'' = Some ''''"
    by (simp add: params_get_def)
  have d: "detect_intent ''tin'' = (''search_tin'', [])" by code_simp
  have b: "params_get (snd (detect_intent ''tin'')) ''extracted_value'' = None"
    unfolding d by (simp add: params_get_def)
  note t1 = missing_parameter_prompt_or_default[of "[(''extracted_value'', Some '''')]" demo_store]
  note t2 = missing_parameter_prompt_or_default[of "snd (detect_intent ''tin'')" demo_store]
  from t1 a
  have "generate_response demo_store ''search_tin'' [(''extracted_value'', Some '''')] =
       ([], Inr (ProvideTinToSearch, NoViz))" by blast
  moreover from t1 a
  have "fst (generate_response demo_store ''search_name'' [(''extracted_value'', Some '''')]) =
       [(SearchName, [Some ''''])]" by (simp add: params_get_default_def)
  moreover from t2 b
  have "generate_response demo_store (fst (detect_intent ''tin'')) (snd (detect_intent ''tin'')) =
       ([], Inr (ProvideTinToSearch, NoViz))" unfolding d by simp
  moreover from t2 b
  have "fst (generate_response demo_store ''sector_analysis'' (snd (detect_intent ''tin''))) =
       [(SectorProfile, [Some ''Manufacturing''])]"
    unfolding d by (simp add: params_get_default_def)
  ultimately show ?thesis using a b by blast
qed

lemma search_tin_found:
  assumes "snd (generate_response g ''search_tin'' params) = Inr (FoundTaxpayer info n e i f action, v)"
  shows "\<exists>result. v = TaxpayerViz result \<and> n = length (tr_risks result) \<and> action = recommended_action n"
proof (cases "params_get params ''extracted_value''")
  case None
  with assms show ?thesis unfolding generate_response_search_tin by simp
next
  case (Some t)
  show ?thesis
  proof (cases t)
    case Nil
    with Some assms show ?thesis unfolding generate_response_search_tin by simp
  next
    case (Cons c cs)
    obtain calls res where s: "search_taxpayer_by_tin g (c # cs) = (calls, res)"
      by (cases "search_taxpayer_by_tin g (c # cs)")
    show ?thesis
    proof (cases res)
      case None
      with s Some Cons assms show ?thesis unfolding generate_response_search_tin by simp
    next
      case (Some result)
      with s \<open>params_get params ''extracted_value'' = Some t\<close> Cons assms show ?thesis
        unfolding generate_response_search_tin
        by (cases "py_sum (map re_exposureAmount (filter truthy_entry (tr_risks result)))")
           (auto simp: Let_def truthy_entry_def)
    qed
  qed
qed

lemma recommended_action_mono: "m \<le> n \<Longrightarrow> tier_rank (recommended_action m) \<le> tier_rank (recommended_action n)"
  by (simp add: recommended_action_def tier_rank_def)

text \<open>
  The recommendation in the text of a found taxpayer is a function of the number of
  entries in the \<^verbatim>\<open>risks\<close> collection of the record alone: critical from 10, high from 5
  to 9, medium from 2 to 4, low for 0 and 1; a larger number never gives a lower tier.
\<close>

lemma recommended_action_tiers:
  "(snd (generate_response g ''search_tin'' params) = Inr (FoundTaxpayer info k e i f action, v) \<longrightarrow>
      (\<exists>result. v = TaxpayerViz result \<and> k = length (tr_risks result)) \<and>
      action = recommended_action k)
   \<and> (10 \<le> n \<longrightarrow> recommended_action n = ''CRITICAL - Immediate Audit'')
   \<and> (5 \<le> n \<and> n \<le> 9 \<longrightarrow> recommended_action n = ''HIGH PRIORITY - Schedule Audit'')
   \<and> (2 \<le> n \<and> n \<le> 4 \<longrightarrow> recommended_action n = ''MEDIUM - Review Risk Profile'')
   \<and> (n \<le> 1 \<longrightarrow> recommended_action n = ''LOW - Routine Monitoring'')
   \<and> (m \<le> n \<longrightarrow> tier_rank (recommended_action m) \<le> tier_rank (recommended_action n))"
proof -
  have "(\<exists>result. v = TaxpayerViz result \<and> k = length (tr_risks result)) \<and>
      action = recommended_action k"
    if "snd (generate_response g ''search_tin'' params) = Inr (FoundTaxpayer info k e i f action, v)"
    using search_tin_found[OF that] by blast
  moreover have "10 \<le> n \<longrightarrow> recommended_action n = ''CRITICAL - Immediate Audit''"
    by (simp add: recommended_action_def)
  moreover have "5 \<le> n \<and> n \<le> 9 \<longrightarrow> recommended_action n = ''HIGH PRIORITY - Schedule Audit''"
    by (simp add: recommended_action_def)
  moreover have "2 \<le> n \<and> n \<le> 4 \<longrightarrow> recommended_action n = ''MEDIUM - Review Risk Profile''"
    by (simp add: recommended_action_def)
  moreover have "n \<le> 1 \<longrightarrow> recommended_action n = ''LOW - Routine Monitoring''"
    by (simp add: recommended_action_def)
  ultimately show ?thesis using recommended_action_mono[of m n] by blast
qed

text \<open>
  C3. The number that decides the tier is not the number of different risk flags of the
  taxpayer. For a taxpayer that no risk flags, \<^verbatim>\<open>OPTIONAL MATCH\<close> and \<^verbatim>\<open>collect\<close> give
  the \<^verbatim>\<open>risks\<close> collection one entry whose values are all \<^verbatim>\<open>null\<close>; the filter
  \<^verbatim>\<open>if r\<close> keeps it, and \<^verbatim>\<open>sum\<close> over its exposure raises \<^verbatim>\<open>TypeError\<close>, so there
  is no answer and no tier. For a taxpayer that one risk flags through two relationships
  with different amounts, the collection has two entries and the answer is the medium
  tier with \<open>2/18\<close> flagged risks, where one flag gives the low tier.
\<close>

theorem search_tin_counts_entries_not_flags:
  "risk_flag_count unflagged_store ''a'' = 0
   \<and> recommended_action 0 = ''LOW - Routine Monitoring''
   \<and> map tr_risks (tin_statement unflagged_store ''a'') = [[null_risk]]
   \<and> generate_response unflagged_store ''search_tin'' [(''extracted_value'', Some ''a'')] =
       ([(SearchTin, [Some ''a''])], Inl TypeError)
   \<and> risk_flag_count twice_flagged_store ''a'' = 1
   \<and> recommended_action 1 = ''LOW - Routine Monitoring''
   \<and> snd (generate_response twice_flagged_store ''search_tin'' [(''extracted_value'', Some ''a'')]) =
       Inr (FoundTaxpayer (taxpayer_info_of twice_flagged_store 0) 2 3000000000 1 1
              ''MEDIUM - Review Risk Profile'',
            TaxpayerViz (hd (tin_statement twice_flagged_store ''a'')))"
proof -
  have "risk_flag_count unflagged_store ''a'' = 0" by code_simp
  moreover have "recommended_action 0 = ''LOW - Routine Monitoring''" by code_simp
  moreover have "map tr_risks (tin_statement unflagged_store ''a'') = [[null_risk]]" by code_simp
  moreover have "generate_response unflagged_store ''search_tin'' [(''extracted_value'', Some ''a'')] =
       ([(SearchTin, [Some ''a''])], Inl TypeError)" by code_simp
  moreover have "risk_flag_count twice_flagged_store ''a'' = 1" by code_simp
  moreover have "recommended_action 1 = ''LOW - Routine Monitoring''" by code_simp
  moreover have "snd (generate_response twice_flagged_store ''search_tin'' [(''extracted_value'', Some ''a'')]) =
       Inr (FoundTaxpayer (taxpayer_info_of twice_flagged_store 0) 2 3000000000 1 1
              ''MEDIUM - Review Risk Profile'',
            TaxpayerViz (hd (tin_statement twice_flagged_store ''a'')))" by code_simp
  ultimately show ?thesis by blast
qed

theorem result_lists_capped_witness:
  "length (Taxpayer demo_store) = 22
   \<and> length (snd (search_taxpayer_by_name demo_store (Some ''ACME''))) = 10
   \<and> snd (generate_response demo_store ''high_impact'' []) =
       Inr (FoundHighImpact 20, CasesViz (snd (find_high_impact_cases demo_store None 1000000000)))
   \<and> length (snd (find_high_impact_cases demo_store None 1000000000)) \<le> 20
   \<and> list_all (\<lambda>c. 1000000000 \<le> cr_exposure c)
         (snd (find_high_impact_cases demo_store None 1000000000))
   \<and> sorted_wrt (\<ge>) (map cr_exposure (snd (find_high_impact_cases demo_store None 1000000000)))"
proof -
  have a: "length (Taxpayer demo_store) = 22" by (simp add: demo_store_def)
  have b: "length (snd (search_taxpayer_by_name demo_store (Some ''ACME''))) = 10" by code_simp
  have n: "length (snd (find_high_impact_cases demo_store None 1000000000)) = 20" by code_simp
  have c: "snd (generate_response demo_store ''high_impact'' []) =
       Inr (FoundHighImpact 20, CasesViz (snd (find_high_impact_cases demo_store None 1000000000)))"
    unfolding generate_response_high_impact using n
    by (cases "find_high_impact_cases demo_store None 1000000000") (auto split: list.splits)
  from result_lists_capped[of demo_store "Some ''ACME''" "''a''" "[]"] c
  have "length (snd (find_high_impact_cases demo_store None 1000000000)) \<le> 20
   \<and> (\<forall>c \<in> set (snd (find_high_impact_cases demo_store None 1000000000)).
         1000000000 \<le> cr_exposure c)
   \<and> sorted_wrt (\<ge>) (map cr_exposure (snd (find_high_impact_cases demo_store None 1000000000)))"
    by blast
  with a b c show ?thesis by (simp add: list_all_iff)
qed

lemma search_taxpayer_by_tin_none:
  assumes "SearchTin \<in> set (failing g) \<or> tin_statement g tin = []"
  shows "search_taxpayer_by_tin g tin = ([(SearchTin, [Some tin])], None)"
  using assms by (auto simp: search_taxpayer_by_tin_def)

lemma get_risk_pathway_none:
  assumes "RiskPathway \<in> set (failing g) \<or> pathway_rows g tin risk_id = []"
  shows "get_risk_pathway g tin risk_id = ([(RiskPathway, [Some tin, risk_id])], None)"
  using assms by (auto simp: get_risk_pathway_def)

lemma search_tin_no_row:
  assumes "params_get params ''extracted_value'' = Some (c # cs)"
    and "SearchTin \<in> set (failing g) \<or> tin_statement g (c # cs) = []"
  shows "generate_response g ''search_tin'' params =
           ([(SearchTin, [Some (c # cs)])], Inr (TinNotFound (c # cs), NoViz))"
  unfolding generate_response_search_tin
  by (simp add: assms(1) search_taxpayer_by_tin_none[OF assms(2)])

lemma pathway_no_taxpayer:
  assumes "params_get params ''extracted_value'' = Some (c # cs)"
    and "SearchTin \<in> set (failing g) \<or> tin_statement g (c # cs) = []"
  shows "generate_response g ''pathway'' params =
           ([(SearchTin, [Some (c # cs)])], Inr (NoPathwayFound, NoViz))"
  unfolding generate_response_pathway
  by (simp add: assms(1) search_taxpayer_by_tin_none[OF assms(2)])

lemma pathway_no_pathway:
  assumes "params_get params ''extracted_value'' = Some (c # cs)"
    and "SearchTin \<notin> set (failing g)"
    and "tin_statement g (c # cs) = r # rs"
    and "tr_risks r = first # others"
    and "RiskPathway \<in> set (failing g) \<or> pathway_rows g (c # cs) (re_riskId first) = []"
  shows "generate_response g ''pathway'' params =
           ([(SearchTin, [Some (c # cs)]), (RiskPathway, [Some (c # cs), re_riskId first])],
            Inr (NoPathwayFound, NoViz))"
proof -
  have s: "search_taxpayer_by_tin g (c # cs) = ([(SearchTin, [Some (c # cs)])], Some r)"
    using assms(2,3) by (simp add: search_taxpayer_by_tin_def)
  show ?thesis
    unfolding generate_response_pathway
    by (simp add: assms(1) s assms(4) get_risk_pathway_none[OF assms(5)])
qed

lemma search_name_no_row:
  assumes "SearchName \<in> set (failing g) \<or>
           name_statement g (params_get_default params ''extracted_value'' '''') = []"
  shows "generate_response g ''search_name'' params =
           ([(SearchName, [params_get_default params ''extracted_value'' ''''])],
            Inr (NoNameMatch (params_get_default params ''extracted_value'' ''''), NoViz))"
  using assms unfolding generate_response_search_name search_taxpayer_by_name_def by auto

lemma related_no_row:
  assumes "params_get params ''extracted_value'' = Some (c # cs)"
    and "FindRelated \<in> set (failing g) \<or> related_statement g (c # cs) = []"
  shows "generate_response g ''related'' params =
           ([(FindRelated, [Some (c # cs)])], Inr (NoRelatedFound, NoViz))"
  using assms(2) unfolding generate_response_related find_related_taxpayers_def
  by (auto simp: assms(1))

lemma high_impact_no_row:
  assumes "HighImpact \<in> set (failing g) \<or> all_case_statement g 1000000000 = []"
  shows "generate_response g ''high_impact'' params =
           ([(HighImpact, [])], Inr (NoHighImpact, NoViz))"
  using assms unfolding generate_response_high_impact find_high_impact_cases_def by auto

lemma sector_no_row:
  assumes "SectorProfile \<in> set (failing g) \<or>
           sector_rows g (params_get_default params ''extracted_value'' ''Manufacturing'') = []"
  shows "generate_response g ''sector_analysis'' params =
           ([(SectorProfile, [params_get_default params ''extracted_value'' ''Manufacturing''])],
            Inr (NoSectorData (params_get_default params ''extracted_value'' ''Manufacturing''),
                 NoViz))"
  using assms unfolding generate_response_sector get_sector_risk_profile_def by auto

lemma generate_response_other:
  assumes "intent \<noteq> ''search_tin''" "intent \<noteq> ''search_name''" "intent \<noteq> ''related''"
    "intent \<noteq> ''pathway''" "intent \<noteq> ''high_impact''" "intent \<noteq> ''sector_analysis''"
  shows "generate_response g intent params = ([], Inr (HelpText, NoViz))"
  unfolding generate_response_def using assms by simp

lemma sent_search_tin:
  assumes "params_get params ''extracted_value'' = Some (c # cs)"
  shows "fst (generate_response g ''search_tin'' params) = [(SearchTin, [Some (c # cs)])]"
  unfolding generate_response_search_tin search_taxpayer_by_tin_def
  by (simp add: assms Let_def split: list.splits sum.splits)

lemma sent_pathway:
  assumes "params_get params ''extracted_value'' = Some (c # cs)"
  shows "(SearchTin, [Some (c # cs)]) \<in> set (fst (generate_response g ''pathway'' params))"
  unfolding generate_response_pathway search_taxpayer_by_tin_def get_risk_pathway_def
  by (simp add: assms split: list.splits option.splits)

lemma all_sent_failing:
  assumes "\<forall>c \<in> set (fst (generate_response g intent params)). fst c \<in> set (failing g)"
  shows "\<exists>resp. snd (generate_response g intent params) = Inr (resp, NoViz) \<and>
                leading_sign resp \<noteq> CheckMark"
proof -
  have missing: "params_get params ''extracted_value'' = None \<or>
                 params_get params ''extracted_value'' = Some '''' \<or>
                 (\<exists>c cs. params_get params ''extracted_value'' = Some (c # cs))"
    by (cases "params_get params ''extracted_value''"; cases "the (params_get params ''extracted_value'')")
       auto
  consider (tin) "intent = ''search_tin''" | (name) "intent = ''search_name''"
    | (rel) "intent = ''related''" | (path) "intent = ''pathway''"
    | (high) "intent = ''high_impact''" | (sector) "intent = ''sector_analysis''"
    | (other) "intent \<noteq> ''search_tin''" "intent \<noteq> ''search_name''" "intent \<noteq> ''related''"
        "intent \<noteq> ''pathway''" "intent \<noteq> ''high_impact''" "intent \<noteq> ''sector_analysis''"
    by blast
  then show ?thesis
  proof cases
    case tin
    from missing show ?thesis
    proof (elim disjE exE)
      fix c cs assume p: "params_get params ''extracted_value'' = Some (c # cs)"
      have "SearchTin \<in> set (failing g)"
        using assms sent_search_tin[OF p, of g] unfolding tin by simp
      then show ?thesis unfolding tin using search_tin_no_row[OF p, of g] by simp
    qed (simp_all add: tin generate_response_search_tin_missing)
  next
    case name
    have "SearchName \<in> set (failing g)"
      using assms search_name_sends_statement[of g params] unfolding name by simp
    then show ?thesis unfolding name using search_name_no_row[of g params] by simp
  next
    case rel
    from missing show ?thesis
    proof (elim disjE exE)
      fix c cs assume p: "params_get params ''extracted_value'' = Some (c # cs)"
      have "fst (generate_response g ''related'' params) = [(FindRelated, [Some (c # cs)])]"
        unfolding generate_response_related find_related_taxpayers_def
        by (simp add: p split: list.splits)
      then have "FindRelated \<in> set (failing g)" using assms unfolding rel by simp
      then show ?thesis unfolding rel using related_no_row[OF p, of g] by simp
    qed (simp_all add: rel generate_response_related_missing)
  next
    case path
    from missing show ?thesis
    proof (elim disjE exE)
      fix c cs assume p: "params_get params ''extracted_value'' = Some (c # cs)"
      have "SearchTin \<in> set (failing g)"
        using assms sent_pathway[OF p, of g] unfolding path by force
      then show ?thesis unfolding path using pathway_no_taxpayer[OF p, of g] by simp
    qed (simp_all add: path generate_response_pathway_missing)
  next
    case high
    have "fst (generate_response g ''high_impact'' params) = [(HighImpact, [])]"
      unfolding generate_response_high_impact find_high_impact_cases_def
      by (simp split: list.splits)
    then have "HighImpact \<in> set (failing g)" using assms unfolding high by simp
    then show ?thesis unfolding high using high_impact_no_row[of g params] by simp
  next
    case sector
    have "SectorProfile \<in> set (failing g)"
      using assms sector_sends_statement[of g params] unfolding sector by simp
    then show ?thesis unfolding sector using sector_no_row[of g params] by simp
  next
    case other
    then show ?thesis using generate_response_other[of intent g params] by simp
  qed
qed

text \<open>
  C4, as stated, fails: the answer to a look-up on a store where the statement raises is
  the answer to the same look-up on a store where the statement finds no row, the
  not-found text with the empty dictionary; there is no answer of its own for errors.
\<close>

theorem store_error_same_as_not_found_counterexample:
  "SearchTin \<in> set (failing (demo_store\<lparr>failing := [SearchTin]\<rparr>))
   \<and> tin_statement (demo_store\<lparr>failing := [SearchTin]\<rparr>) ''a'' \<noteq> []
   \<and> failing empty_store = []
   \<and> tin_statement empty_store ''a'' = []
   \<and> generate_response (demo_store\<lparr>failing := [SearchTin]\<rparr>) ''search_tin''
        [(''extracted_value'', Some ''a'')] =
      generate_response empty_store ''search_tin'' [(''extracted_value'', Some ''a'')]
   \<and> generate_response (demo_store\<lparr>failing := [SearchTin]\<rparr>) ''search_tin''
        [(''extracted_value'', Some ''a'')] =
      ([(SearchTin, [Some ''a''])], Inr (TinNotFound ''a'', NoViz))"
proof -
  have p: "params_get [(''extracted_value'', Some ''a'')] ''extracted_value'' = Some ''a''"
    by (simp add: params_get_def)
  have a: "tin_statement (demo_store\<lparr>failing := [SearchTin]\<rparr>) ''a'' \<noteq> []" by code_simp
  have b: "tin_statement empty_store ''a'' = []" by code_simp
  have c: "failing empty_store = []" by (simp add: empty_store_def)
  have d: "generate_response (demo_store\<lparr>failing := [SearchTin]\<rparr>) ''search_tin''
        [(''extracted_value'', Some ''a'')] =
      ([(SearchTin, [Some ''a''])], Inr (TinNotFound ''a'', NoViz))"
    by (rule search_tin_no_row[OF p]) simp
  have e: "generate_response empty_store ''search_tin'' [(''extracted_value'', Some ''a'')] =
      ([(SearchTin, [Some ''a''])], Inr (TinNotFound ''a'', NoViz))"
    by (rule search_tin_no_row[OF p]) (simp add: b)
  show ?thesis using a b c d e by simp
qed

text \<open>
  C4, amended. An exception of \<^verbatim>\<open>graph.run\<close> is caught inside the data function, which
  then returns what it returns for no rows (\<^verbatim>\<open>None\<close> or the empty list). So at every
  place where \<^verbatim>\<open>generate_response\<close> sends a statement, whatever the other statements
  do, a statement that raises gives exactly the answer of a statement that finds no row:
  the not-found text of the intent with the empty dictionary, and nothing is raised. When
  every statement sent during a dispatch raises, the answer is a text without a success
  sign and the empty dictionary.
\<close>

theorem store_error_answers_as_no_rows:
  "(params_get params ''extracted_value'' = Some (c # cs) \<and>
      (SearchTin \<in> set (failing g) \<or> tin_statement g (c # cs) = []) \<longrightarrow>
        generate_response g ''search_tin'' params =
          ([(SearchTin, [Some (c # cs)])], Inr (TinNotFound (c # cs), NoViz)) \<and>
        generate_response g ''pathway'' params =
          ([(SearchTin, [Some (c # cs)])], Inr (NoPathwayFound, NoViz)))
   \<and> (params_get params ''extracted_value'' = Some (c # cs) \<and>
      SearchTin \<notin> set (failing g) \<and> tin_statement g (c # cs) = r # rs \<and>
      tr_risks r = first # others \<and>
      (RiskPathway \<in> set (failing g) \<or> pathway_rows g (c # cs) (re_riskId first) = []) \<longrightarrow>
        generate_response g ''pathway'' params =
          ([(SearchTin, [Some (c # cs)]), (RiskPathway, [Some (c # cs), re_riskId first])],
           Inr (NoPathwayFound, NoViz)))
   \<and> (SearchName \<in> set (failing g) \<or>
      name_statement g (params_get_default params ''extracted_value'' '''') = [] \<longrightarrow>
        generate_response g ''search_name'' params =
          ([(SearchName, [params_get_default params ''extracted_value'' ''''])],
           Inr (NoNameMatch (params_get_default params ''extracted_value'' ''''), NoViz)))
   \<and> (params_get params ''extracted_value'' = Some (c # cs) \<and>
      (FindRelated \<in> set (failing g) \<or> related_statement g (c # cs) = []) \<longrightarrow>
        generate_response g ''related'' params =
          ([(FindRelated, [Some (c # cs)])], Inr (NoRelatedFound, NoViz)))
   \<and> (HighImpact \<in> set (failing g) \<or> all_case_statement g 1000000000 = [] \<longrightarrow>
        generate_response g ''high_impact'' params =
          ([(HighImpact, [])], Inr (NoHighImpact, NoViz)))
   \<and> (SectorProfile \<in> set (failing g) \<or>
      sector_rows g (params_get_default params ''extracted_value'' ''Manufacturing'') = [] \<longrightarrow>
        generate_response g ''sector_analysis'' params =
          ([(SectorProfile, [params_get_default params ''extracted_value'' ''Manufacturing''])],
           Inr (NoSectorData (params_get_default params ''extracted_value'' ''Manufacturing''),
                NoViz)))
   \<and> ((\<forall>call \<in> set (fst (generate_response g intent params)). fst call \<in> set (failing g)) \<longrightarrow>
        (\<exists>resp. snd (generate_response g intent params) = Inr (resp, NoViz) \<and>
                leading_sign resp \<noteq> CheckMark))"
proof (intro conjI impI)
  assume h: "params_get params ''extracted_value'' = Some (c # cs) \<and>
      (SearchTin \<in> set (failing g) \<or> tin_statement g (c # cs) = [])"
  show "generate_response g ''search_tin'' params =
          ([(SearchTin, [Some (c # cs)])], Inr (TinNotFound (c # cs), NoViz))"
    using h by (intro search_tin_no_row) simp_all
  show "generate_response g ''pathway'' params =
          ([(SearchTin, [Some (c # cs)])], Inr (NoPathwayFound, NoViz))"
    using h by (intro pathway_no_taxpayer) simp_all
next
  assume h: "params_get params ''extracted_value'' = Some (c # cs) \<and>
      SearchTin \<notin> set (failing g) \<and> tin_statement g (c # cs) = r # rs \<and>
      tr_risks r = first # others \<and>
      (RiskPathway \<in> set (failing g) \<or> pathway_rows g (c # cs) (re_riskId first) = [])"
  show "generate_response g ''pathway'' params =
          ([(SearchTin, [Some (c # cs)]), (RiskPathway, [Some (c # cs), re_riskId first])],
           Inr (NoPathwayFound, NoViz))"
    using h by (intro pathway_no_pathway[where r = r and rs = rs and others = others]) simp_all
next
  assume "SearchName \<in> set (failing g) \<or>
      name_statement g (params_get_default params ''extracted_value'' '''') = []"
  then show "generate_response g ''search_name'' params =
          ([(SearchName, [params_get_default params ''extracted_value'' ''''])],
           Inr (NoNameMatch (params_get_default params ''extracted_value'' ''''), NoViz))"
    by (rule search_name_no_row)
next
  assume h: "params_get params ''extracted_value'' = Some (c # cs) \<and>
      (FindRelated \<in> set (failing g) \<or> related_statement g (c # cs) = [])"
  show "generate_response g ''related'' params =
          ([(FindRelated, [Some (c # cs)])], Inr (NoRelatedFound, NoViz))"
    using h by (intro related_no_row) simp_all
next
  assume "HighImpact \<in> set (failing g) \<or> all_case_statement g 1000000000 = []"
  then show "generate_response g ''high_impact'' params =
          ([(HighImpact, [])], Inr (NoHighImpact, NoViz))"
    by (rule high_impact_no_row)
next
  assume "SectorProfile \<in> set (failing g) \<or>
      sector_rows g (params_get_default params ''extracted_value'' ''Manufacturing'') = []"
  then show "generate_response g ''sector_analysis'' params =
          ([(SectorProfile, [params_get_default params ''extracted_value'' ''Manufacturing''])],
           Inr (NoSectorData (params_get_default params ''extracted_value'' ''Manufacturing''),
                NoViz))"
    by (rule sector_no_row)
next
  assume "\<forall>call \<in> set (fst (generate_response g intent params)). fst call \<in> set (failing g)"
  then show "\<exists>resp. snd (generate_response g intent params) = Inr (resp, NoViz) \<and>
                leading_sign resp \<noteq> CheckMark"
    by (rule all_sent_failing)
qed

theorem store_error_answers_as_no_rows_witness:
  "params_get [(''extracted_value'', Some ''a'')] ''extracted_value'' = Some ''a''
   \<and> failing (demo_store\<lparr>failing := [SearchTin]\<rparr>) = [SearchTin]
   \<and> tin_statement (demo_store\<lparr>failing := [SearchTin]\<rparr>) ''a'' \<noteq> []
   \<and> generate_response (demo_store\<lparr>failing := [SearchTin]\<rparr>) ''search_tin''
        [(''extracted_value'', Some ''a'')] =
      ([(SearchTin, [Some ''a''])], Inr (TinNotFound ''a'', NoViz))
   \<and> generate_response (demo_store\<lparr>failing := [SearchTin]\<rparr>) ''pathway''
        [(''extracted_value'', Some ''a'')] =
      ([(SearchTin, [Some ''a''])], Inr (NoPathwayFound, NoViz))
   \<and> failing (demo_store\<lparr>failing := [RiskPathway]\<rparr>) = [RiskPathway]
   \<and> generate_response (demo_store\<lparr>failing := [RiskPathway]\<rparr>) ''pathway''
        [(''extracted_value'', Some ''a'')] =
      ([(SearchTin, [Some ''a'']), (RiskPathway, [Some ''a'', Some ''0''])],
       Inr (NoPathwayFound, NoViz))"
proof -
  let ?P = "[(''extracted_value'', Some ''a'')]"
  let ?S1 = "demo_store\<lparr>failing := [SearchTin]\<rparr>"
  let ?S2 = "demo_store\<lparr>failing := [RiskPathway]\<rparr>"
  have p: "params_get ?P ''extracted_value'' = Some ''a''" by (simp add: params_get_def)
  have f1: "failing ?S1 = [SearchTin]" by simp
  have f2: "failing ?S2 = [RiskPathway]" by simp
  have n1: "tin_statement ?S1 ''a'' \<noteq> []" by code_simp
  have n2: "tin_statement ?S2 ''a'' \<noteq> []" by code_simp
  have r2: "tr_risks (hd (tin_statement ?S2 ''a'')) \<noteq> []" by code_simp
  have i2: "re_riskId (hd (tr_risks (hd (tin_statement ?S2 ''a'')))) = Some ''0''" by code_simp
  have c2: "tin_statement ?S2 ''a'' = hd (tin_statement ?S2 ''a'') # tl (tin_statement ?S2 ''a'')"
    using n2 by simp
  have d2: "tr_risks (hd (tin_statement ?S2 ''a'')) =
              hd (tr_risks (hd (tin_statement ?S2 ''a''))) # tl (tr_risks (hd (tin_statement ?S2 ''a'')))"
    using r2 by simp
  note t1 = store_error_answers_as_no_rows[of ?P "CHR ''a''" "[]" ?S1]
  note t2 = store_error_answers_as_no_rows[of ?P "CHR ''a''" "[]" ?S2
      "hd (tin_statement ?S2 ''a'')" "tl (tin_statement ?S2 ''a'')"
      "hd (tr_risks (hd (tin_statement ?S2 ''a'')))" "tl (tr_risks (hd (tin_statement ?S2 ''a'')))"]
  have a: "generate_response ?S1 ''search_tin'' ?P =
      ([(SearchTin, [Some ''a''])], Inr (TinNotFound ''a'', NoViz))
    \<and> generate_response ?S1 ''pathway'' ?P =
      ([(SearchTin, [Some ''a''])], Inr (NoPathwayFound, NoViz))"
    using t1 p by simp
  have "generate_response ?S2 ''pathway'' ?P =
      ([(SearchTin, [Some ''a'']),
        (RiskPathway, [Some ''a'', re_riskId (hd (tr_risks (hd (tin_statement ?S2 ''a''))))])],
       Inr (NoPathwayFound, NoViz))"
    using t2 p c2 d2 by simp
  then have b: "generate_response ?S2 ''pathway'' ?P =
      ([(SearchTin, [Some ''a'']), (RiskPathway, [Some ''a'', Some ''0''])],
       Inr (NoPathwayFound, NoViz))"
    unfolding i2 .
  show ?thesis using p f1 f2 n1 a b by simp
qed

end
